theory Spec2Isabelle
  imports Complex_Main "HOL-Library.Sublist"
begin

section \<open>ai-news-explainer: a shallow embedding of \<open>main.py\<close>\<close>

text \<open>
  The program is a linear pipeline: locate the first article of a newspaper front page,
  extract its title and body, ask a generative model for a structured explanation (with a
  bounded retry loop), render the JSON answer into an HTML fragment and post it.

  Python values are modelled as follows.
  \<^item> \<open>str\<close> is \<open>string\<close>, holding the UTF-8 bytes of the text. The only substring tests of
    the program look for ASCII needles, for which a search over UTF-8 bytes and a search
    over code points agree.
  \<^item> \<open>int\<close> is \<open>int\<close>.
  \<^item> An exception is a value of type \<open>exn\<close>; a function that may raise returns
    \<open>exn + 'a\<close> with \<open>Inl\<close> for the raised exception.
  \<^item> Everything a function does to the outside world (calls of the model, sleeps, log
    records, HTTP requests) is recorded, in order, as a list of \<open>event\<close>s returned
    next to the result.
  \<^item> External services are oracles passed as arguments.
\<close>

subsection \<open>Exceptions, events, strings\<close>

datatype exn =
    Exception string
  | ValueError string
  | KeyError string
  | TypeError string
  | AttributeError string
  | JSONDecodeError
  | FileNotFoundError string
  | ApiError string

datatype level = INFO | WARNING | ERROR

datatype event =
    ModelCall nat
  | Sleep int
  | Log level string
  | HttpGet string
  | CreatePost string string
  | TelegramSend string

text \<open>
  \<open>str(e)\<close>: the message of an exception; for a \<open>KeyError\<close> it is the \<open>repr\<close> of the key.
  The payload of a \<open>TypeError\<close> or \<open>AttributeError\<close> stands for the interpreter's message
  (the model keeps the type of the operand or the name of the attribute), and a
  \<open>JSONDecodeError\<close> carries none: the text of these three only reaches the log record of
  the outermost handler.
\<close>

fun str_exn :: "exn \<Rightarrow> string" where
  "str_exn (Exception m) = m"
| "str_exn (ValueError m) = m"
| "str_exn (KeyError k) = [CHR 0x27] @ k @ [CHR 0x27]"
| "str_exn (TypeError m) = m"
| "str_exn (AttributeError m) = m"
| "str_exn JSONDecodeError = ''JSONDecodeError''"
| "str_exn (FileNotFoundError m) = m"
| "str_exn (ApiError m) = m"

text \<open>\<open>str(n)\<close> for an integer: its decimal digits, with a leading minus sign when negative.\<close>

fun str_nat :: "nat \<Rightarrow> string" where
  "str_nat n = (if n < 10 then [char_of (48 + n)] else str_nat (n div 10) @ [char_of (48 + n mod 10)])"

definition str_int :: "int \<Rightarrow> string" where
  "str_int i = (if i < 0 then CHR ''-'' # str_nat (nat (- i)) else str_nat (nat i))"

text \<open>\<open>sep.join(xs)\<close>.\<close>

fun join :: "string \<Rightarrow> string list \<Rightarrow> string" where
  "join sep [] = []"
| "join sep [x] = x"
| "join sep (x # y # ys) = x @ sep @ join sep (y # ys)"

text \<open>\<open>needle in haystack\<close> for two strings: a contiguous occurrence.\<close>

definition str_contains :: "string \<Rightarrow> string \<Rightarrow> bool" where
  "str_contains needle haystack = sublist needle haystack"

text \<open>\<open>range(n)\<close>: empty when \<open>n \<le> 0\<close>.\<close>

definition range_py :: "int \<Rightarrow> nat list" where
  "range_py n = [0 ..< nat n]"

text \<open>\<open>time.sleep(secs)\<close> raises \<open>ValueError\<close> on a negative argument and otherwise blocks for
  that long.\<close>

definition time_sleep :: "int \<Rightarrow> exn + event list" where
  "time_sleep secs =
     (if secs < 0 then Inl (ValueError ''sleep length must be non-negative'')
      else Inr [Sleep secs])"

subsection \<open>\<open>getGeminiResponse\<close>: the summarization client\<close>

text \<open>
  The request handed to \<open>client.models.generate_content\<close>. The API key and the model name
  are read from the environment; the system instruction is the content of \<open>prompt.md\<close>, a
  file of the repository that is read on every call.
\<close>

record gen_request =
  api_key :: "string option"
  model :: "string option"
  system_instruction :: string
  user_prompt :: string
  temperature :: rat
  response_mime_type :: string

text \<open>What one call of the model does: it returns a response whose \<open>text\<close> is kept, or it
  raises an \<open>Exception\<close>, of which the handler only looks at \<open>str(e)\<close>.\<close>

datatype api_outcome = Response string | Raises string

definition user_prompt_1 :: string where
  "user_prompt_1 = [CHR 0x0A] @ ''    '' @ [CHR 0xEB, CHR 0x89, CHR 0xB4, CHR 0xEC, CHR 0x8A, CHR 0xA4] @ '' '' @ [CHR 0xEC, CHR 0xA0, CHR 0x9C, CHR 0xEB, CHR 0xAA, CHR 0xA9] @ '': ''"

definition user_prompt_2 :: string where
  "user_prompt_2 = [CHR 0x0A] @ ''    '' @ [CHR 0xEB, CHR 0x89, CHR 0xB4, CHR 0xEC, CHR 0x8A, CHR 0xA4] @ '' '' @ [CHR 0xEB, CHR 0xB3, CHR 0xB8, CHR 0xEB, CHR 0xAC, CHR 0xB8] @ '': ''"

definition user_prompt_3 :: string where
  "user_prompt_3 = [CHR 0x0A] @ ''    ''"

definition msg_call_succeeded :: string where
  "msg_call_succeeded = [CHR 0xE2, CHR 0x9C, CHR 0x85] @ '' Gemini API '' @ [CHR 0xED, CHR 0x98, CHR 0xB8, CHR 0xEC, CHR 0xB6, CHR 0x9C] @ '' '' @ [CHR 0xEC, CHR 0x84, CHR 0xB1, CHR 0xEA, CHR 0xB3, CHR 0xB5]"

definition msg_overloaded_1 :: string where
  "msg_overloaded_1 = ''API '' @ [CHR 0xEC, CHR 0x84, CHR 0x9C, CHR 0xEB, CHR 0xB2, CHR 0x84] @ '' '' @ [CHR 0xEA, CHR 0xB3, CHR 0xBC, CHR 0xEB, CHR 0xB6, CHR 0x80, CHR 0xED, CHR 0x95, CHR 0x98] @ ''. ''"

definition msg_overloaded_2 :: string where
  "msg_overloaded_2 = [CHR 0xEC, CHR 0xB4, CHR 0x88] @ '' '' @ [CHR 0xED, CHR 0x9B, CHR 0x84] @ '' '' @ [CHR 0xEC, CHR 0x9E, CHR 0xAC, CHR 0xEC, CHR 0x8B, CHR 0x9C, CHR 0xEB, CHR 0x8F, CHR 0x84] @ ''... ('' @ [CHR 0xEC, CHR 0x8B, CHR 0x9C, CHR 0xEB, CHR 0x8F, CHR 0x84] @ '' ''"

definition msg_retries_exceeded :: string where
  "msg_retries_exceeded = ''API '' @ [CHR 0xED, CHR 0x98, CHR 0xB8, CHR 0xEC, CHR 0xB6, CHR 0x9C] @ '' '' @ [CHR 0xEC, CHR 0xB5, CHR 0x9C, CHR 0xEB, CHR 0x8C, CHR 0x80] @ '' '' @ [CHR 0xEC, CHR 0x9E, CHR 0xAC, CHR 0xEC, CHR 0x8B, CHR 0x9C, CHR 0xEB, CHR 0x8F, CHR 0x84] @ '' '' @ [CHR 0xED, CHR 0x9A, CHR 0x9F, CHR 0xEC, CHR 0x88, CHR 0x98] @ '' '' @ [CHR 0xEC, CHR 0xB4, CHR 0x88, CHR 0xEA, CHR 0xB3, CHR 0xBC] @ '': ''"

definition msg_unexpected_error :: string where
  "msg_unexpected_error = ''API '' @ [CHR 0xED, CHR 0x98, CHR 0xB8, CHR 0xEC, CHR 0xB6, CHR 0x9C] @ '' '' @ [CHR 0xEC, CHR 0xA4, CHR 0x91] @ '' '' @ [CHR 0xEC, CHR 0x98, CHR 0x88, CHR 0xEC, CHR 0x83, CHR 0x81, CHR 0xEC, CHR 0xB9, CHR 0x98] @ '' '' @ [CHR 0xEB, CHR 0xAA, CHR 0xBB, CHR 0xED, CHR 0x95, CHR 0x9C] @ '' '' @ [CHR 0xEC, CHR 0x98, CHR 0xA4, CHR 0xEB, CHR 0xA5, CHR 0x98] @ '' '' @ [CHR 0xEB, CHR 0xB0, CHR 0x9C, CHR 0xEC, CHR 0x83, CHR 0x9D] @ '': ''"

text \<open>The warning of line 106:
  \<open>f"API ... {wait_time}... ({attempt + 1}/{max_retries})"\<close>.\<close>

definition msg_overloaded :: "int \<Rightarrow> nat \<Rightarrow> int \<Rightarrow> string" where
  "msg_overloaded wait_time attempt max_retries =
     msg_overloaded_1 @ str_int wait_time @ msg_overloaded_2
       @ str_int (int attempt + 1) @ ''/'' @ str_int max_retries @ '')''"

text \<open>Line 104: the error message is transient when it contains one of four markers.\<close>

definition transient_markers :: "string list" where
  "transient_markers = [''503'', ''429'', ''UNAVAILABLE'', ''RESOURCE_EXHAUSTED'']"

definition is_transient :: "string \<Rightarrow> bool" where
  "is_transient error_message = list_ex (\<lambda>err. str_contains err error_message) transient_markers"

text \<open>
  The body of the \<open>try\<close> block (lines 91 to 100) for one attempt: the call, then the
  success sleep and the log record. Both the call and the sleep are inside the \<open>try\<close>, so
  an exception of either reaches the handler as its message (\<open>Inl\<close>).
\<close>

definition try_body :: "(nat \<Rightarrow> api_outcome) \<Rightarrow> int \<Rightarrow> nat \<Rightarrow> event list \<times> (string + string)" where
  "try_body api success_delay attempt =
     (case api attempt of
        Raises msg \<Rightarrow> ([ModelCall attempt], Inl msg)
      | Response result \<Rightarrow>
          (case time_sleep success_delay of
             Inl e \<Rightarrow> ([ModelCall attempt], Inl (str_exn e))
           | Inr slept \<Rightarrow>
               ([ModelCall attempt] @ slept @ [Log INFO msg_call_succeeded], Inr result)))"

text \<open>
  The \<open>for attempt in range(max_retries)\<close> loop (lines 89 to 117), by recursion over the
  attempts still to make. The backoff sleep of line 108 is inside the handler, so an
  exception it raises leaves the function. The empty list is the end of the loop, line 117.
\<close>

fun retry_loop ::
  "(nat \<Rightarrow> api_outcome) \<Rightarrow> int \<Rightarrow> int \<Rightarrow> int \<Rightarrow> nat list \<Rightarrow> event list \<times> (exn + string option)" where
  "retry_loop api max_retries retry_delay success_delay [] = ([], Inr None)"
| "retry_loop api max_retries retry_delay success_delay (attempt # rest) =
     (case try_body api success_delay attempt of
        (evs, Inr result) \<Rightarrow> (evs, Inr (Some result))
      | (evs, Inl error_message) \<Rightarrow>
          if is_transient error_message then
            (let wait_time = retry_delay * 2 ^ attempt;
                 warned = evs @ [Log WARNING (msg_overloaded wait_time attempt max_retries)]
             in if int attempt < max_retries - 1 then
                  (case time_sleep wait_time of
                     Inl e \<Rightarrow> (warned, Inl e)
                   | Inr slept \<Rightarrow>
                       (case retry_loop api max_retries retry_delay success_delay rest of
                          (later, r) \<Rightarrow> (warned @ slept @ later, r)))
                else (warned @ [Log ERROR (msg_retries_exceeded @ error_message)], Inr None))
          else (evs @ [Log ERROR (msg_unexpected_error @ error_message)], Inr None))"

definition build_request :: "(string \<rightharpoonup> string) \<Rightarrow> string \<Rightarrow> string \<Rightarrow> string \<Rightarrow> gen_request" where
  "build_request environ prompt_md title body =
     \<lparr> api_key = environ ''GOOGLE_API_KEY'',
       model = environ ''GEMINI_MODEL'',
       system_instruction = prompt_md,
       user_prompt = user_prompt_1 @ title @ user_prompt_2 @ body @ user_prompt_3,
       temperature = 7 / 10,
       response_mime_type = ''application/json'' \<rparr>"

text \<open>
  What the steps before the loop (lines 57 to 86) do. None of them is inside the \<open>try\<close>,
  so an exception of any of them leaves the function. Each is an oracle that says whether
  the step raises (\<open>Some e\<close>, or \<open>Inl e\<close>): the logger of \<open>utils\<close>, the constructor of the
  client with the API key, \<open>open(...).read()\<close> of \<open>prompt.md\<close>, which gives the text of the
  file, and the constructors of \<open>types.Content\<close> (with the user prompt) and of
  \<open>types.GenerateContentConfig\<close> (with the system prompt).
\<close>

record libraries =
  lib_get_logger :: "exn option"
  lib_Client :: "string option \<Rightarrow> exn option"
  lib_read_prompt :: "exn + string"
  lib_Content :: "string \<Rightarrow> exn option"
  lib_GenerateContentConfig :: "string \<Rightarrow> exn option"

text \<open>Lines 57 to 86, in the order of the source: the first step that raises ends the
  function with its exception; otherwise the request is built.\<close>

definition before_loop :: "(string \<rightharpoonup> string) \<Rightarrow> libraries \<Rightarrow> string \<Rightarrow> string \<Rightarrow> exn + gen_request" where
  "before_loop environ libs title body =
     (case lib_get_logger libs of
        Some e \<Rightarrow> Inl e
      | None \<Rightarrow>
     (case lib_Client libs (environ ''GOOGLE_API_KEY'') of
        Some e \<Rightarrow> Inl e
      | None \<Rightarrow>
     (case lib_read_prompt libs of
        Inl e \<Rightarrow> Inl e
      | Inr system_prompt \<Rightarrow>
     (let request = build_request environ system_prompt title body in
      case lib_Content libs (user_prompt request) of
        Some e \<Rightarrow> Inl e
      | None \<Rightarrow>
     (case lib_GenerateContentConfig libs system_prompt of
        Some e \<Rightarrow> Inl e
      | None \<Rightarrow> Inr request)))))"

text \<open>\<open>generate_content\<close> is the oracle of the model: given the request and the number of
  the call, it says what that call does. The whole function is the steps before the loop,
  then the loop.\<close>

definition getGeminiResponse ::
  "(gen_request \<Rightarrow> nat \<Rightarrow> api_outcome) \<Rightarrow> (string \<rightharpoonup> string) \<Rightarrow> libraries \<Rightarrow> string \<Rightarrow> string
     \<Rightarrow> int \<Rightarrow> int \<Rightarrow> int \<Rightarrow> event list \<times> (exn + string option)" where
  "getGeminiResponse generate_content environ libs title body max_retries retry_delay success_delay =
     (case before_loop environ libs title body of
        Inl e \<Rightarrow> ([], Inl e)
      | Inr request \<Rightarrow>
          retry_loop (generate_content request)
            max_retries retry_delay success_delay (range_py max_retries))"

text \<open>The call with the default arguments \<open>max_retries=3, retry_delay=5, success_delay=3\<close>,
  as \<open>__main__\<close> makes it.\<close>

definition getGeminiResponse_default ::
  "(gen_request \<Rightarrow> nat \<Rightarrow> api_outcome) \<Rightarrow> (string \<rightharpoonup> string) \<Rightarrow> libraries \<Rightarrow> string \<Rightarrow> string
     \<Rightarrow> event list \<times> (exn + string option)" where
  "getGeminiResponse_default generate_content environ libs title body =
     getGeminiResponse generate_content environ libs title body 3 5 3"

text \<open>The events of \<open>k\<close> consecutive transient failures from attempt \<open>a\<close> on, each followed
  by its backoff sleep.\<close>

definition backoff_events :: "int \<Rightarrow> int \<Rightarrow> nat \<Rightarrow> nat \<Rightarrow> event list" where
  "backoff_events max_retries retry_delay a n =
     concat (map (\<lambda>i. [ModelCall i,
                        Log WARNING (msg_overloaded (retry_delay * 2 ^ i) i max_retries),
                        Sleep (retry_delay * 2 ^ i)]) [a ..< n])"

text \<open>Attempt \<open>i\<close> fails with an error that line 104 classifies as transient.\<close>

definition fails_transiently :: "(nat \<Rightarrow> api_outcome) \<Rightarrow> nat \<Rightarrow> bool" where
  "fails_transiently api i = (case api i of Raises msg \<Rightarrow> is_transient msg | Response _ \<Rightarrow> False)"

text \<open>The sleeps of a run, in order, and the attempts made.\<close>

fun sleeps :: "event list \<Rightarrow> int list" where
  "sleeps [] = []"
| "sleeps (Sleep s # evs) = s # sleeps evs"
| "sleeps (_ # evs) = sleeps evs"

fun calls :: "event list \<Rightarrow> nat list" where
  "calls [] = []"
| "calls (ModelCall i # evs) = i # calls evs"
| "calls (_ # evs) = calls evs"

text \<open>A model for illustration that is overloaded on the first call and rejects the
  request on every later one, and an empty environment.\<close>

definition overloaded_then_rejected :: "gen_request \<Rightarrow> nat \<Rightarrow> api_outcome" where
  "overloaded_then_rejected request k =
     (if k = 0 then Raises ''503 UNAVAILABLE'' else Raises ''400 INVALID_ARGUMENT'')"

definition no_environ :: "string \<rightharpoonup> string" where
  "no_environ = Map.empty"

text \<open>Libraries for illustration: with \<open>healthy_libs\<close> every step before the loop succeeds
  and \<open>prompt.md\<close> is empty; with \<open>missing_prompt_libs\<close> the file \<open>prompt.md\<close> is not there.
  A model that answers the second call after an overload on the first.\<close>

definition healthy_libs :: libraries where
  "healthy_libs =
     \<lparr> lib_get_logger = None,
       lib_Client = (\<lambda>_. None),
       lib_read_prompt = Inr [],
       lib_Content = (\<lambda>_. None),
       lib_GenerateContentConfig = (\<lambda>_. None) \<rparr>"

definition missing_prompt_libs :: libraries where
  "missing_prompt_libs =
     \<lparr> lib_get_logger = None,
       lib_Client = (\<lambda>_. None),
       lib_read_prompt = Inl (FileNotFoundError ''[Errno 2] No such file or directory: prompt.md''),
       lib_Content = (\<lambda>_. None),
       lib_GenerateContentConfig = (\<lambda>_. None) \<rparr>"

definition overloaded_then_answers :: "gen_request \<Rightarrow> nat \<Rightarrow> api_outcome" where
  "overloaded_then_answers request k =
     (if k = 0 then Raises ''429 RESOURCE_EXHAUSTED'' else Response ''{}'')"

subsection \<open>\<open>convertToHtml\<close>: the response renderer\<close>

text \<open>
  The value \<open>json.loads\<close> returns. A float is given by its \<open>repr\<close>, a dict by the list of
  its items (keys distinct, looked up with \<open>map_of\<close>).
\<close>

datatype json =
    JNull
  | JBool bool
  | JInt int
  | JFloat string
  | JString string
  | JArray "json list"
  | JObject "(string \<times> json) list"

text \<open>The name of the Python type of a value, which a \<open>TypeError\<close> carries here in place
  of its message.\<close>

fun type_name :: "json \<Rightarrow> string" where
  "type_name JNull = ''NoneType''"
| "type_name (JBool _) = ''bool''"
| "type_name (JInt _) = ''int''"
| "type_name (JFloat _) = ''float''"
| "type_name (JString _) = ''str''"
| "type_name (JArray _) = ''list''"
| "type_name (JObject _) = ''dict''"

text \<open>\<open>key in value\<close> for a \<open>str\<close> key: membership among the keys of a dict, among the
  elements of a list, as a substring of a string; a \<open>TypeError\<close> on anything else.\<close>

fun py_in :: "string \<Rightarrow> json \<Rightarrow> exn + bool" where
  "py_in key (JObject items) = Inr (key \<in> set (map fst items))"
| "py_in key (JArray xs) = Inr (JString key \<in> set xs)"
| "py_in key (JString s) = Inr (str_contains key s)"
| "py_in key j = Inl (TypeError (type_name j))"

text \<open>\<open>value[key]\<close> for a \<open>str\<close> key: the item of a dict or a \<open>KeyError\<close>; a \<open>TypeError\<close> on
  every other type.\<close>

fun py_getitem :: "json \<Rightarrow> string \<Rightarrow> exn + json" where
  "py_getitem (JObject items) key =
     (case map_of items key of None \<Rightarrow> Inl (KeyError key) | Some v \<Rightarrow> Inr v)"
| "py_getitem j key = Inl (TypeError (type_name j))"

text \<open>The characters of a string: every byte that is not a UTF-8 continuation byte
  starts a new one.\<close>

definition is_continuation :: "char \<Rightarrow> bool" where
  "is_continuation c = ((128::nat) \<le> of_char c \<and> (of_char c :: nat) < 192)"

function code_points :: "string \<Rightarrow> string list" where
  "code_points [] = []"
| "code_points (c # cs) =
     (c # takeWhile is_continuation cs) # code_points (dropWhile is_continuation cs)"
  by pat_completeness auto
termination
  by (relation "measure length") (auto simp: length_dropWhile_le less_Suc_eq_le)

text \<open>\<open>for x in value\<close>: the elements of a list, the keys of a dict, the characters of a
  string; a \<open>TypeError\<close> on anything else.\<close>

fun py_iter :: "json \<Rightarrow> exn + json list" where
  "py_iter (JArray xs) = Inr xs"
| "py_iter (JObject items) = Inr (map (\<lambda>kv. JString (fst kv)) items)"
| "py_iter (JString s) = Inr (map JString (code_points s))"
| "py_iter j = Inl (TypeError (type_name j))"

text \<open>A replacement field \<open>{value}\<close> of an f-string is \<open>format(value, "")\<close>: a string is put
  in as it is, any other value as its \<open>str\<close>, which never raises on a value of
  \<open>json.loads\<close> and is the argument \<open>py_str\<close>.\<close>

definition format_field :: "(json \<Rightarrow> string) \<Rightarrow> json \<Rightarrow> string" where
  "format_field py_str v = (case v of JString s \<Rightarrow> s | _ \<Rightarrow> py_str v)"

text \<open>The literal text of the two f-strings (lines 134 to 142 and 147 to 234), cut at the
  replacement fields.\<close>

definition term_html_0 :: string where
  \<open>term_html_0 = concat [
     [CHR 0x0A],
     ''                        <li class="border-l-4 border-green-500 pl-4">'', [CHR 0x0A],
     ''                            <strong class="font-bold text-green-700 text-lg block">'', [CHR 0x0A],
     ''                                '']\<close>

definition term_html_1 :: string where
  \<open>term_html_1 = concat [
     [CHR 0x0A],
     ''                            </strong>'', [CHR 0x0A],
     ''                            <span class="text-gray-600">'', [CHR 0x0A],
     ''                                '']\<close>

definition term_html_2 :: string where
  \<open>term_html_2 = concat [
     [CHR 0x0A],
     ''                            </span>'', [CHR 0x0A],
     ''                        </li>'']\<close>

definition html_0 :: string where
  \<open>html_0 = concat [
     [CHR 0x0A],
     ''    <div class="max-w-3xl mx-auto my-8 sm:my-12">'', [CHR 0x0A],
     ''        <div class="bg-white rounded-xl shadow-lg overflow-hidden">'', [CHR 0x0A],
     ''            <div class="p-6 sm:p-10">'', [CHR 0x0A],
     ''                '', [CHR 0x0A],
     ''                <h1 class="text-3xl sm:text-4xl font-bold text-gray-900 leading-tight mb-4">'', [CHR 0x0A],
     ''                    '']\<close>

definition html_1 :: string where
  \<open>html_1 = concat [
     [CHR 0x0A],
     ''                </h1>'', [CHR 0x0A],
     ''                '', [CHR 0x0A],
     ''                <div class="bg-blue-50 border-l-4 border-blue-400 p-4 rounded-r-lg mb-10">'', [CHR 0x0A],
     ''                    <p class="text-base sm:text-lg font-semibold text-blue-800">'', [CHR 0x0A],
     ''                        <span class="font-bold">'', [CHR 0xED, CHR 0x95, CHR 0x9C], '' '', [CHR 0xEC, CHR 0xA4, CHR 0x84], '' '', [CHR 0xEC, CHR 0x9A, CHR 0x94, CHR 0xEC, CHR 0x95, CHR 0xBD], ''!</span>'', [CHR 0x0A],
     ''                        '']\<close>

definition html_2 :: string where
  \<open>html_2 = concat [
     [CHR 0x0A],
     ''                    </p>'', [CHR 0x0A],
     ''                </div>'', [CHR 0x0A],
     [CHR 0x0A],
     ''                <div class="space-y-10">'', [CHR 0x0A],
     ''                    <div>'', [CHR 0x0A],
     ''                        <h2 class="text-2xl font-bold text-gray-800 mb-3 flex items-center">'', [CHR 0x0A],
     ''                            <span class="text-3xl mr-3">'', [CHR 0xF0, CHR 0x9F, CHR 0x92, CHR 0xA1], ''</span>'', [CHR 0x0A],
     ''                            '', [CHR 0xEB, CHR 0xAC, CHR 0xB4, CHR 0xEC, CHR 0x8A, CHR 0xA8], '' '', [CHR 0xEB, CHR 0x9C, CHR 0xBB, CHR 0xEC, CHR 0x9D, CHR 0xBC, CHR 0xEA, CHR 0xB9, CHR 0x8C, CHR 0xEC, CHR 0x9A, CHR 0x94], ''?'', [CHR 0x0A],
     ''                        </h2>'', [CHR 0x0A],
     ''                        <p class="text-gray-700 text-base sm:text-lg leading-relaxed">'', [CHR 0x0A],
     ''                            '']\<close>

definition html_3 :: string where
  \<open>html_3 = concat [
     [CHR 0x0A],
     ''                        </p>'', [CHR 0x0A],
     ''                    </div>'', [CHR 0x0A],
     [CHR 0x0A],
     ''                    <div>'', [CHR 0x0A],
     ''                        <h2 class="text-2xl font-bold text-gray-800 mb-3 flex items-center">'', [CHR 0x0A],
     ''                            <span class="text-3xl mr-3">'', [CHR 0xF0, CHR 0x9F, CHR 0x8C, CHR 0x8D], ''</span>'', [CHR 0x0A],
     ''                            '', [CHR 0xEC, CHR 0x9D, CHR 0xB4, CHR 0xEA, CHR 0xB2, CHR 0x8C], '' '', [CHR 0xEC, CHR 0x99, CHR 0x9C], '' '', [CHR 0xEC, CHR 0xA4, CHR 0x91, CHR 0xEC, CHR 0x9A, CHR 0x94, CHR 0xED, CHR 0x95, CHR 0xA0, CHR 0xEA, CHR 0xB9, CHR 0x8C, CHR 0xEC, CHR 0x9A, CHR 0x94], ''?'', [CHR 0x0A],
     ''                        </h2>'', [CHR 0x0A],
     ''                        <p class="text-gray-700 text-base sm:text-lg leading-relaxed">'', [CHR 0x0A],
     ''                            '']\<close>

definition html_4 :: string where
  \<open>html_4 = concat [
     [CHR 0x0A],
     ''                        </p>'', [CHR 0x0A],
     ''                    </div>'', [CHR 0x0A],
     [CHR 0x0A],
     ''                    <div>'', [CHR 0x0A],
     ''                        <h2 class="text-2xl font-bold text-gray-800 mb-3 flex items-center">'', [CHR 0x0A],
     ''                            <span class="text-3xl mr-3">'', [CHR 0xF0, CHR 0x9F, CHR 0x91, CHR 0xA8, CHR 0xE2, CHR 0x80, CHR 0x8D, CHR 0xF0, CHR 0x9F, CHR 0x91, CHR 0xA9, CHR 0xE2, CHR 0x80, CHR 0x8D, CHR 0xF0, CHR 0x9F, CHR 0x91, CHR 0xA7, CHR 0xE2, CHR 0x80, CHR 0x8D, CHR 0xF0, CHR 0x9F, CHR 0x91, CHR 0xA6], ''</span>'', [CHR 0x0A],
     ''                            '', [CHR 0xEB, CHR 0x82, CHR 0x98, CHR 0xEC, CHR 0x99, CHR 0x80], '' '', [CHR 0xEC, CHR 0x9A, CHR 0xB0, CHR 0xEB, CHR 0xA6, CHR 0xAC], '' '', [CHR 0xEA, CHR 0xB0, CHR 0x80, CHR 0xEC, CHR 0xA1, CHR 0xB1, CHR 0xEC, CHR 0x97, CHR 0x90, CHR 0xEA, CHR 0xB2, CHR 0x8C, CHR 0xEB, CHR 0x8A, CHR 0x94], ''?'', [CHR 0x0A],
     ''                        </h2>'', [CHR 0x0A],
     ''                        <p class="text-gray-700 text-base sm:text-lg leading-relaxed">'', [CHR 0x0A],
     ''                            '']\<close>

definition html_5 :: string where
  \<open>html_5 = concat [
     [CHR 0x0A],
     ''                        </p>'', [CHR 0x0A],
     ''                    </div>'', [CHR 0x0A],
     [CHR 0x0A],
     ''                    <div class="bg-yellow-50 border-2 border-dashed border-yellow-400 p-6 rounded-lg">'', [CHR 0x0A],
     ''                        <h2 class="text-xl font-bold text-yellow-900 mb-3 flex items-center">'', [CHR 0x0A],
     ''                            <span class="text-2xl mr-3">'', [CHR 0xF0, CHR 0x9F, CHR 0xA4, CHR 0x94], ''</span>'', [CHR 0x0A],
     ''                            '', [CHR 0xEC, CHR 0x8A, CHR 0xAC, CHR 0xEA, CHR 0xB8, CHR 0xB0, CHR 0xEB, CHR 0xA1, CHR 0xAD, CHR 0xEA, CHR 0xB2, CHR 0x8C], '' '', [CHR 0xEC, CHR 0x83, CHR 0x9D, CHR 0xEA, CHR 0xB0, CHR 0x81, CHR 0xED, CHR 0x95, CHR 0xB4], '' '', [CHR 0xEB, CHR 0xB3, CHR 0xB4, CHR 0xEA, CHR 0xB8, CHR 0xB0], [CHR 0x0A],
     ''                        </h2>'', [CHR 0x0A],
     ''                        <p class="text-yellow-800 text-base sm:text-lg leading-relaxed">'', [CHR 0x0A],
     ''                            '']\<close>

definition html_6 :: string where
  \<open>html_6 = concat [
     [CHR 0x0A],
     ''                        </p>'', [CHR 0x0A],
     ''                    </div>'', [CHR 0x0A],
     [CHR 0x0A],
     ''                </div>'', [CHR 0x0A],
     [CHR 0x0A],
     ''                <hr class="my-10 border-gray-200">'', [CHR 0x0A],
     [CHR 0x0A],
     ''                <div class="bg-gray-50 p-6 rounded-lg">'', [CHR 0x0A],
     ''                    <h2 class="text-2xl font-bold text-gray-800 mb-5 flex items-center">'', [CHR 0x0A],
     ''                        <span class="text-3xl mr-3">'', [CHR 0xF0, CHR 0x9F, CHR 0x94, CHR 0x8D], ''</span>'', [CHR 0x0A],
     ''                        '', [CHR 0xEC, CHR 0x98, CHR 0xA4, CHR 0xEB, CHR 0x8A, CHR 0x98, CHR 0xEC, CHR 0x9D, CHR 0x98], '' '', [CHR 0xEA, CHR 0xB2, CHR 0xBD, CHR 0xEC, CHR 0xA0, CHR 0x9C], '' '', [CHR 0xEC, CHR 0x9A, CHR 0xA9, CHR 0xEC, CHR 0x96, CHR 0xB4], '' '', [CHR 0xEB, CHR 0x8F, CHR 0x8B, CHR 0xEB, CHR 0xB3, CHR 0xB4, CHR 0xEA, CHR 0xB8, CHR 0xB0], [CHR 0x0A],
     ''                    </h2>'', [CHR 0x0A],
     ''                    <ul class="space-y-4">'', [CHR 0x0A],
     ''                        '']\<close>

definition html_7 :: string where
  \<open>html_7 = concat [
     [CHR 0x0A],
     ''                    </ul>'', [CHR 0x0A],
     ''                </div>'', [CHR 0x0A],
     [CHR 0x0A],
     ''                <hr class="my-8 border-gray-200">'', [CHR 0x0A],
     [CHR 0x0A],
     ''                <div class="text-center">'', [CHR 0x0A],
     ''                    <a href="'']\<close>

definition html_8 :: string where
  \<open>html_8 = concat [
     ''" '', [CHR 0x0A],
     ''                       target="_blank" '', [CHR 0x0A],
     ''                       rel="noopener noreferrer"'', [CHR 0x0A],
     ''                       class="inline-flex items-center px-6 py-3 bg-blue-600 text-white font-semibold rounded-lg hover:bg-blue-700 transition-colors duration-200 shadow-md hover:shadow-lg">'', [CHR 0x0A],
     ''                        <span class="text-xl mr-2">'', [CHR 0xF0, CHR 0x9F, CHR 0x93, CHR 0xB0], ''</span>'', [CHR 0x0A],
     ''                        '', [CHR 0xEB, CHR 0x89, CHR 0xB4, CHR 0xEC, CHR 0x8A, CHR 0xA4], '' '', [CHR 0xEC, CHR 0x9B, CHR 0x90, CHR 0xEB, CHR 0xB3, CHR 0xB8], '' '', [CHR 0xEB, CHR 0xB3, CHR 0xB4, CHR 0xEA, CHR 0xB8, CHR 0xB0], [CHR 0x0A],
     ''                        <span class="ml-2">'', [CHR 0xE2, CHR 0x86, CHR 0x97], ''</span>'', [CHR 0x0A],
     ''                    </a>'', [CHR 0x0A],
     ''                </div>'', [CHR 0x0A],
     [CHR 0x0A],
     ''            </div>'', [CHR 0x0A],
     ''        </div>'', [CHR 0x0A],
     ''    </div>'', [CHR 0x0A],
     ''    '']\<close>

definition msg_missing_key_1 :: string where
  "msg_missing_key_1 = [CHR 0xF0, CHR 0x9F, CHR 0x9B, CHR 0x91] @ '' ''"

definition msg_missing_key_2 :: string where
  "msg_missing_key_2 = '' '' @ [CHR 0xED, CHR 0x82, CHR 0xA4, CHR 0xEA, CHR 0xB0, CHR 0x80] @ '' '' @ [CHR 0xEC, CHR 0xA1, CHR 0xB4, CHR 0xEC, CHR 0x9E, CHR 0xAC, CHR 0xED, CHR 0x95, CHR 0x98, CHR 0xEC, CHR 0xA7, CHR 0x80] @ '' '' @ [CHR 0xEC, CHR 0x95, CHR 0x8A, CHR 0xEC, CHR 0x8A, CHR 0xB5, CHR 0xEB, CHR 0x8B, CHR 0x88, CHR 0xEB, CHR 0x8B, CHR 0xA4] @ ''.''"

definition required_keys :: "string list" where
  "required_keys = [''title'', ''summary'', ''meaning'', ''importance'', ''impact_on_us'',
                    ''food_for_thought'', ''key_terms'']"

text \<open>Lines 126 to 128: the loop over the required keys raises at the first one that is not
  in the response.\<close>

fun check_required_keys :: "string list \<Rightarrow> json \<Rightarrow> exn + unit" where
  "check_required_keys [] json_response = Inr ()"
| "check_required_keys (key # keys) json_response =
     (case py_in key json_response of
        Inl e \<Rightarrow> Inl e
      | Inr present \<Rightarrow>
          if \<not> present then Inl (Exception (msg_missing_key_1 @ key @ msg_missing_key_2))
          else check_required_keys keys json_response)"

text \<open>Lines 134 to 143: the list item of one key term. The two lookups are made in the
  order of the text.\<close>

definition term_html :: "(json \<Rightarrow> string) \<Rightarrow> json \<Rightarrow> exn + string" where
  "term_html py_str term_info =
     (case py_getitem term_info ''term'' of
        Inl e \<Rightarrow> Inl e
      | Inr t \<Rightarrow>
          (case py_getitem term_info ''definition'' of
             Inl e \<Rightarrow> Inl e
           | Inr d \<Rightarrow>
               Inr (term_html_0 @ format_field py_str t @ term_html_1
                      @ format_field py_str d @ term_html_2)))"

fun key_terms_loop :: "(json \<Rightarrow> string) \<Rightarrow> json list \<Rightarrow> string list \<Rightarrow> exn + string list" where
  "key_terms_loop py_str [] terms_html = Inr terms_html"
| "key_terms_loop py_str (term_info # rest) terms_html =
     (case term_html py_str term_info of
        Inl e \<Rightarrow> Inl e
      | Inr h \<Rightarrow> key_terms_loop py_str rest (terms_html @ [h]))"

definition generate_key_terms_html :: "(json \<Rightarrow> string) \<Rightarrow> json \<Rightarrow> exn + string" where
  "generate_key_terms_html py_str key_terms =
     (case py_iter key_terms of
        Inl e \<Rightarrow> Inl e
      | Inr entries \<Rightarrow>
          (case key_terms_loop py_str entries [] of
             Inl e \<Rightarrow> Inl e
           | Inr terms_html \<Rightarrow> Inr (concat terms_html)))"

text \<open>Sequencing of steps that may raise: the first exception ends the computation.\<close>

definition and_then :: "exn + 'a \<Rightarrow> ('a \<Rightarrow> exn + 'b) \<Rightarrow> exn + 'b" where
  "and_then r f = (case r of Inl e \<Rightarrow> Inl e | Inr v \<Rightarrow> f v)"

text \<open>Lines 147 to 234: the replacement fields of the template are evaluated from left to
  right, and the first lookup that raises ends the rendering.\<close>

definition render_template :: "(json \<Rightarrow> string) \<Rightarrow> json \<Rightarrow> string \<Rightarrow> exn + string" where
  "render_template py_str json_response article_url =
     and_then (py_getitem json_response ''title'') (\<lambda>title.
     and_then (py_getitem json_response ''summary'') (\<lambda>summary.
     and_then (py_getitem json_response ''meaning'') (\<lambda>meaning.
     and_then (py_getitem json_response ''importance'') (\<lambda>importance.
     and_then (py_getitem json_response ''impact_on_us'') (\<lambda>impact_on_us.
     and_then (py_getitem json_response ''food_for_thought'') (\<lambda>food_for_thought.
     and_then (py_getitem json_response ''key_terms'') (\<lambda>key_terms.
     and_then (generate_key_terms_html py_str key_terms) (\<lambda>key_terms_html.
       Inr (html_0 @ format_field py_str title
          @ html_1 @ format_field py_str summary
          @ html_2 @ format_field py_str meaning
          @ html_3 @ format_field py_str importance
          @ html_4 @ format_field py_str impact_on_us
          @ html_5 @ format_field py_str food_for_thought
          @ html_6 @ key_terms_html
          @ html_7 @ article_url
          @ html_8)))))))))"

text \<open>\<open>json.loads\<close> is the argument \<open>loads\<close>; it gives \<open>None\<close> where the library raises
  \<open>JSONDecodeError\<close>.\<close>

definition convertToHtml ::
  "(string \<Rightarrow> json option) \<Rightarrow> (json \<Rightarrow> string) \<Rightarrow> string \<Rightarrow> string \<Rightarrow> exn + string" where
  "convertToHtml loads py_str response article_url =
     (case loads response of
        None \<Rightarrow> Inl JSONDecodeError
      | Some json_response \<Rightarrow>
          (case check_required_keys required_keys json_response of
             Inl e \<Rightarrow> Inl e
           | Inr _ \<Rightarrow> render_template py_str json_response article_url))"

text \<open>An entry of \<open>key_terms\<close> that has both keys.\<close>

definition complete_entry :: "json \<Rightarrow> bool" where
  "complete_entry e = (case e of
       JObject items \<Rightarrow> ''term'' \<in> set (map fst items) \<and> ''definition'' \<in> set (map fst items)
     | _ \<Rightarrow> False)"

definition is_object :: "json \<Rightarrow> bool" where
  "is_object e = (case e of JObject _ \<Rightarrow> True | _ \<Rightarrow> False)"

text \<open>The response of the end-to-end scenario and the value \<open>json.loads\<close> gives for it.\<close>

definition example_response :: string where
  \<open>example_response = ''{"title":"T","summary":"S","meaning":"M","importance":"I","impact_on_us":"U","food_for_thought":"F","key_terms":[{"term":"GDP","definition":"..."}]}''\<close>

definition example_payload :: json where
  "example_payload = JObject
     [(''title'', JString ''T''), (''summary'', JString ''S''), (''meaning'', JString ''M''),
      (''importance'', JString ''I''), (''impact_on_us'', JString ''U''),
      (''food_for_thought'', JString ''F''),
      (''key_terms'', JArray [JObject [(''term'', JString ''GDP''), (''definition'', JString ''...'')]])]"

text \<open>The same payload with a second key term that has no definition.\<close>

definition example_payload_incomplete :: json where
  "example_payload_incomplete = JObject
     [(''title'', JString ''T''), (''summary'', JString ''S''), (''meaning'', JString ''M''),
      (''importance'', JString ''I''), (''impact_on_us'', JString ''U''),
      (''food_for_thought'', JString ''F''),
      (''key_terms'', JArray [JObject [(''term'', JString ''GDP''), (''definition'', JString ''...'')],
                              JObject [(''term'', JString ''CPI'')]])]"

text \<open>A parser and a \<open>str\<close> for illustration: the parser knows the response \<open>null\<close> and the
  response of the scenario; the \<open>str\<close> is never reached on payloads whose fields are
  strings.\<close>

definition example_loads :: "string \<Rightarrow> json option" where
  "example_loads response =
     (if response = ''null'' then Some JNull
      else if response = example_response then Some example_payload
      else None)"

definition example_str :: "json \<Rightarrow> string" where
  "example_str v = type_name v"

text \<open>A payload that lacks only \<open>meaning\<close>.\<close>

definition example_payload_without_meaning :: json where
  "example_payload_without_meaning = JObject
     [(''title'', JString ''T''), (''summary'', JString ''S''),
      (''importance'', JString ''I''), (''impact_on_us'', JString ''U''),
      (''food_for_thought'', JString ''F''), (''key_terms'', JArray [])]"

subsection \<open>The parsed page\<close>

text \<open>
  The tree \<open>BeautifulSoup(resp.text, "html.parser")\<close> builds, as far as the program looks
  at it: a tag has a name, the list of its classes (the value of the multi-valued \<open>class\<close>
  attribute), its other attributes and its children; a text node has its string. The
  parser itself is an argument of the functions below.
\<close>

datatype node =
    Tag string "string list" "(string \<times> string) list" "node list"
  | NavigableString string

fun tag_attrs :: "node \<Rightarrow> (string \<times> string) list" where
  "tag_attrs (Tag _ _ attributes _) = attributes"
| "tag_attrs (NavigableString _) = []"

text \<open>The nodes below a node, in document order.\<close>

fun descendants :: "node \<Rightarrow> node list" where
  "descendants (Tag _ _ _ children) = concat (map (\<lambda>c. c # descendants c) children)"
| "descendants (NavigableString _) = []"

text \<open>
  The three kinds of search the program makes: by name, by name and \<open>class_\<close>, by name and
  \<open>id\<close>. A \<open>class_\<close> string without a space matches a tag that has this class; one with a
  space matches a tag whose class list is exactly the words of the string.
\<close>

datatype selector =
    ByName string
  | ByClass string string
  | ByClasses string "string list"
  | ById string string

fun matches :: "selector \<Rightarrow> node \<Rightarrow> bool" where
  "matches _ (NavigableString _) = False"
| "matches (ByName n) (Tag name _ _ _) = (name = n)"
| "matches (ByClass n c) (Tag name classes _ _) = (name = n \<and> c \<in> set classes)"
| "matches (ByClasses n cs) (Tag name classes _ _) = (name = n \<and> classes = cs)"
| "matches (ById n v) (Tag name _ attributes _) = (name = n \<and> map_of attributes ''id'' = Some v)"

text \<open>\<open>tag.find(...)\<close>: the first matching descendant, or \<open>None\<close>.\<close>

definition soup_find :: "node \<Rightarrow> selector \<Rightarrow> node option" where
  "soup_find tag sel = List.find (matches sel) (descendants tag)"

text \<open>The strings below a node in document order, and \<open>get_text(separator, strip=True)\<close>:
  every string is stripped, empty ones are dropped, the rest is joined. \<open>str.strip\<close> is
  the argument \<open>strip\<close>.\<close>

fun all_strings :: "node \<Rightarrow> string list" where
  "all_strings (Tag _ _ _ children) = concat (map all_strings children)"
| "all_strings (NavigableString s) = [s]"

definition get_text :: "(string \<Rightarrow> string) \<Rightarrow> string \<Rightarrow> node \<Rightarrow> string" where
  "get_text strip separator tag =
     join separator (filter (\<lambda>s. s \<noteq> []) (map strip (all_strings tag)))"

text \<open>A method call on a value that may be \<open>None\<close>: on \<open>None\<close> it is an
  \<open>AttributeError\<close>.\<close>

definition method_find :: "node option \<Rightarrow> selector \<Rightarrow> exn + node option" where
  "method_find receiver sel =
     (case receiver of
        None \<Rightarrow> Inl (AttributeError ''find'')
      | Some tag \<Rightarrow> Inr (soup_find tag sel))"

definition method_has_attr :: "node option \<Rightarrow> string \<Rightarrow> exn + bool" where
  "method_has_attr receiver key =
     (case receiver of
        None \<Rightarrow> Inl (AttributeError ''has_attr'')
      | Some tag \<Rightarrow> Inr (key \<in> set (map fst (tag_attrs tag))))"

definition method_getitem :: "node option \<Rightarrow> string \<Rightarrow> exn + string" where
  "method_getitem receiver key =
     (case receiver of
        None \<Rightarrow> Inl (TypeError ''NoneType'')
      | Some tag \<Rightarrow>
          (case map_of (tag_attrs tag) key of
             None \<Rightarrow> Inl (KeyError key)
           | Some v \<Rightarrow> Inr v))"

definition method_get_text :: "(string \<Rightarrow> string) \<Rightarrow> string \<Rightarrow> node option \<Rightarrow> exn + string" where
  "method_get_text strip separator receiver =
     (case receiver of
        None \<Rightarrow> Inl (AttributeError ''get_text'')
      | Some tag \<Rightarrow> Inr (get_text strip separator tag))"

text \<open>Truth value of the result of a search: \<open>None\<close> is false, a tag is true whatever it
  contains.\<close>

definition truthy :: "node option \<Rightarrow> bool" where
  "truthy r = (r \<noteq> None)"

text \<open>The answer of \<open>requests.get\<close>; the call itself may raise.\<close>

record http_response =
  status_code :: int
  resp_text :: string

subsection \<open>\<open>getFirstArticleUrl\<close> and \<open>getArticleContent\<close>\<close>

definition msg_list_request_failed :: string where
  "msg_list_request_failed = [CHR 0xF0, CHR 0x9F, CHR 0x9B, CHR 0x91] @ '' '' @ [CHR 0xEA, CHR 0xB8, CHR 0xB0, CHR 0xEC, CHR 0x82, CHR 0xAC] @ '' '' @ [CHR 0xEB, CHR 0xAA, CHR 0xA9, CHR 0xEB, CHR 0xA1, CHR 0x9D] @ '' '' @ [CHR 0xEC, CHR 0x9A, CHR 0x94, CHR 0xEC, CHR 0xB2, CHR 0xAD] @ '' '' @ [CHR 0xEC, CHR 0x8B, CHR 0xA4, CHR 0xED, CHR 0x8C, CHR 0xA8] @ '': ''"

definition msg_page_request_failed :: string where
  "msg_page_request_failed = [CHR 0xF0, CHR 0x9F, CHR 0x9B, CHR 0x91] @ '' '' @ [CHR 0xEA, CHR 0xB8, CHR 0xB0, CHR 0xEC, CHR 0x82, CHR 0xAC] @ '' '' @ [CHR 0xED, CHR 0x8E, CHR 0x98, CHR 0xEC, CHR 0x9D, CHR 0xB4, CHR 0xEC, CHR 0xA7, CHR 0x80] @ '' '' @ [CHR 0xEC, CHR 0x9A, CHR 0x94, CHR 0xEC, CHR 0xB2, CHR 0xAD] @ '' '' @ [CHR 0xEC, CHR 0x8B, CHR 0xA4, CHR 0xED, CHR 0x8C, CHR 0xA8] @ '': ''"

definition msg_link_not_found :: string where
  "msg_link_not_found = [CHR 0xF0, CHR 0x9F, CHR 0x9B, CHR 0x91] @ '' '' @ [CHR 0xEA, CHR 0xB8, CHR 0xB0, CHR 0xEC, CHR 0x82, CHR 0xAC] @ '' '' @ [CHR 0xEB, CHR 0xA7, CHR 0x81, CHR 0xED, CHR 0x81, CHR 0xAC, CHR 0xEB, CHR 0xA5, CHR 0xBC] @ '' '' @ [CHR 0xEC, CHR 0xB0, CHR 0xBE, CHR 0xEC, CHR 0x9D, CHR 0x84] @ '' '' @ [CHR 0xEC, CHR 0x88, CHR 0x98] @ '' '' @ [CHR 0xEC, CHR 0x97, CHR 0x86, CHR 0xEC, CHR 0x8A, CHR 0xB5, CHR 0xEB, CHR 0x8B, CHR 0x88, CHR 0xEB, CHR 0x8B, CHR 0xA4] @ ''.''"

definition no_title :: string where
  "no_title = [CHR 0xE2, CHR 0x9D, CHR 0x8C] @ '' '' @ [CHR 0xEC, CHR 0xA0, CHR 0x9C, CHR 0xEB, CHR 0xAA, CHR 0xA9] @ '' '' @ [CHR 0xEC, CHR 0x97, CHR 0x86, CHR 0xEC, CHR 0x9D, CHR 0x8C]"

definition no_body :: string where
  "no_body = [CHR 0xE2, CHR 0x9D, CHR 0x8C] @ '' '' @ [CHR 0xEB, CHR 0xB3, CHR 0xB8, CHR 0xEB, CHR 0xAC, CHR 0xB8] @ '' '' @ [CHR 0xEC, CHR 0x97, CHR 0x86, CHR 0xEC, CHR 0x9D, CHR 0x8C]"

definition brick_selector :: selector where
  "brick_selector = ByClasses ''div'' [''newspaper_brick_item'', ''_start_page'']"

definition article_list_selector :: selector where
  "article_list_selector = ByClass ''ul'' ''newspaper_article_lst''"

text \<open>Lines 24 to 33, on the parsed page. Every step after the first is guarded by the
  truth value of the step before.\<close>

definition first_article_link :: "node \<Rightarrow> exn + string" where
  "first_article_link soup =
     and_then (method_find (Some soup) brick_selector) (\<lambda>brick_div.
     and_then (if truthy brick_div then method_find brick_div article_list_selector
               else Inr None) (\<lambda>ul.
     and_then (if truthy ul then method_find ul (ByName ''li'') else Inr None) (\<lambda>first_li.
     and_then (if truthy first_li then method_find first_li (ByName ''a'') else Inr None) (\<lambda>link_tag.
     and_then (if truthy link_tag then method_has_attr link_tag ''href'' else Inr False) (\<lambda>found.
       if \<not> found then Inl (Exception msg_link_not_found)
       else method_getitem link_tag ''href'')))))"

definition front_page_url :: "string \<Rightarrow> string \<Rightarrow> string" where
  "front_page_url press_code date =
     ''https://media.naver.com/press/'' @ press_code @ ''/newspaper?date='' @ date"

definition getFirstArticleUrl ::
  "(string \<Rightarrow> (string \<times> string) list \<Rightarrow> exn + http_response) \<Rightarrow> (string \<Rightarrow> node)
     \<Rightarrow> string \<Rightarrow> string \<Rightarrow> (string \<times> string) list \<Rightarrow> event list \<times> (exn + string)" where
  "getFirstArticleUrl get html_parser press_code date headers =
     (let url = front_page_url press_code date in
      case get url headers of
        Inl e \<Rightarrow> ([HttpGet url], Inl e)
      | Inr resp \<Rightarrow>
          if status_code resp \<noteq> 200
          then ([HttpGet url], Inl (Exception (msg_list_request_failed @ str_int (status_code resp))))
          else ([HttpGet url], first_article_link (html_parser (resp_text resp))))"

text \<open>Lines 42 to 52, on the parsed page.\<close>

definition title_selector :: selector where
  "title_selector = ByClass ''div'' ''media_end_head_title''"

definition body_selector :: selector where
  "body_selector = ById ''div'' ''newsct_article''"

definition extract_title_body :: "(string \<Rightarrow> string) \<Rightarrow> node \<Rightarrow> exn + string \<times> string" where
  "extract_title_body strip soup =
     and_then (method_find (Some soup) title_selector) (\<lambda>title_div.
     and_then (if truthy title_div then method_get_text strip [] title_div else Inr no_title) (\<lambda>title.
     and_then (method_find (Some soup) body_selector) (\<lambda>body_div.
     and_then (if truthy body_div then method_get_text strip [CHR 0x0A] body_div else Inr no_body) (\<lambda>body.
       Inr (title, body)))))"

definition getArticleContent ::
  "(string \<Rightarrow> (string \<times> string) list \<Rightarrow> exn + http_response) \<Rightarrow> (string \<Rightarrow> node)
     \<Rightarrow> (string \<Rightarrow> string) \<Rightarrow> string \<Rightarrow> (string \<times> string) list
     \<Rightarrow> event list \<times> (exn + string \<times> string)" where
  "getArticleContent get html_parser strip article_url headers =
     (case get article_url headers of
        Inl e \<Rightarrow> ([HttpGet article_url], Inl e)
      | Inr resp \<Rightarrow>
          if status_code resp \<noteq> 200
          then ([HttpGet article_url],
                Inl (Exception (msg_page_request_failed @ str_int (status_code resp))))
          else ([HttpGet article_url], extract_title_body strip (html_parser (resp_text resp))))"

text \<open>Three pages for illustration: a front page whose article list is empty, one whose
  first item has an anchor without \<open>href\<close>, and an article page with a body but no title
  container.\<close>

definition page_empty_list :: node where
  "page_empty_list = Tag ''[document]'' [] []
     [Tag ''div'' [''newspaper_brick_item'', ''_start_page''] []
        [Tag ''ul'' [''newspaper_article_lst''] [] []]]"

definition page_anchor_without_href :: node where
  "page_anchor_without_href = Tag ''[document]'' [] []
     [Tag ''div'' [''newspaper_brick_item'', ''_start_page''] []
        [Tag ''ul'' [''newspaper_article_lst''] []
           [Tag ''li'' [] [] [Tag ''a'' [] [(''name'', ''top'')] [NavigableString ''headline'']]]]]"

definition page_without_title :: node where
  "page_without_title = Tag ''[document]'' [] []
     [Tag ''div'' [] [(''id'', ''newsct_article'')]
        [NavigableString ''line 1'', Tag ''br'' [] [] [], NavigableString ''line 2'']]"

definition ok_response :: http_response where
  "ok_response = \<lparr> status_code = 200, resp_text = [] \<rparr>"

subsection \<open>\<open>__main__\<close>: the pipeline\<close>

text \<open>
  Everything the run reads from outside: the environment after \<open>load_dotenv()\<close>, the two
  renderings of today's date, the random user agent, the HTTP transport, the library
  functions, the model, the steps before the retry loop, and the two collaborators of \<open>utils\<close> (the post
  API and the Telegram client), which say whether their call raises.
\<close>

record post_request =
  post_title :: string
  post_content :: string
  category :: string
  writer :: string
  image_paths :: "string list"
  thumbnail_image_path :: string

record world =
  w_environ :: "string \<rightharpoonup> string"
  w_today :: string
  w_today_str :: string
  w_user_agent :: string
  w_get :: "string \<Rightarrow> (string \<times> string) list \<Rightarrow> exn + http_response"
  w_html_parser :: "string \<Rightarrow> node"
  w_strip :: "string \<Rightarrow> string"
  w_generate_content :: "gen_request \<Rightarrow> nat \<Rightarrow> api_outcome"
  w_libs :: libraries
  w_loads :: "string \<Rightarrow> json option"
  w_py_str :: "json \<Rightarrow> string"
  w_create_post :: "post_request \<Rightarrow> exn option"
  w_send_test_message :: "string \<Rightarrow> exn option"
  w_thumbnail :: string

definition msg_env_missing :: string where
  "msg_env_missing = [CHR 0xF0, CHR 0x9F, CHR 0x9B, CHR 0x91] @ '' '' @ [CHR 0xED, CHR 0x95, CHR 0x84, CHR 0xEC, CHR 0x88, CHR 0x98] @ '' '' @ [CHR 0xED, CHR 0x99, CHR 0x98, CHR 0xEA, CHR 0xB2, CHR 0xBD, CHR 0xEB, CHR 0xB3, CHR 0x80, CHR 0xEC, CHR 0x88, CHR 0x98, CHR 0xEA, CHR 0xB0, CHR 0x80] @ '' '' @ [CHR 0xEC, CHR 0x84, CHR 0xA4, CHR 0xEC, CHR 0xA0, CHR 0x95, CHR 0xEB, CHR 0x90, CHR 0x98, CHR 0xEC, CHR 0xA7, CHR 0x80] @ '' '' @ [CHR 0xEC, CHR 0x95, CHR 0x8A, CHR 0xEC, CHR 0x95, CHR 0x98, CHR 0xEC, CHR 0x8A, CHR 0xB5, CHR 0xEB, CHR 0x8B, CHR 0x88, CHR 0xEB, CHR 0x8B, CHR 0xA4] @ '': ''"

definition msg_article_link :: string where
  "msg_article_link = [CHR 0xE2, CHR 0x9C, CHR 0x85] @ '' '' @ [CHR 0xEA, CHR 0xB8, CHR 0xB0, CHR 0xEC, CHR 0x82, CHR 0xAC] @ '' '' @ [CHR 0xEB, CHR 0xA7, CHR 0x81, CHR 0xED, CHR 0x81, CHR 0xAC] @ '': ''"

definition msg_article_title :: string where
  "msg_article_title = [CHR 0x0A] @ [CHR 0xF0, CHR 0x9F, CHR 0x93, CHR 0xB0] @ '' ['' @ [CHR 0xEA, CHR 0xB8, CHR 0xB0, CHR 0xEC, CHR 0x82, CHR 0xAC] @ '' '' @ [CHR 0xEC, CHR 0xA0, CHR 0x9C, CHR 0xEB, CHR 0xAA, CHR 0xA9] @ ''] '' @ [CHR 0x0A]"

definition msg_article_body :: string where
  "msg_article_body = [CHR 0x0A] @ [CHR 0xF0, CHR 0x9F, CHR 0x93, CHR 0x9D] @ '' ['' @ [CHR 0xEB, CHR 0xB3, CHR 0xB8, CHR 0xEB, CHR 0xAC, CHR 0xB8] @ '' '' @ [CHR 0xEB, CHR 0x82, CHR 0xB4, CHR 0xEC, CHR 0x9A, CHR 0xA9] @ ''] '' @ [CHR 0x0A]"

definition msg_gemini_failed_log :: string where
  "msg_gemini_failed_log = [CHR 0xE2, CHR 0x9D, CHR 0x8C] @ '' Gemini API '' @ [CHR 0xED, CHR 0x98, CHR 0xB8, CHR 0xEC, CHR 0xB6, CHR 0x9C] @ '' '' @ [CHR 0xEC, CHR 0x8B, CHR 0xA4, CHR 0xED, CHR 0x8C, CHR 0xA8]"

definition msg_gemini_failed :: string where
  "msg_gemini_failed = ''Gemini API '' @ [CHR 0xED, CHR 0x98, CHR 0xB8, CHR 0xEC, CHR 0xB6, CHR 0x9C] @ '' '' @ [CHR 0xEC, CHR 0x8B, CHR 0xA4, CHR 0xED, CHR 0x8C, CHR 0xA8]"

definition msg_gemini_response :: string where
  "msg_gemini_response = [CHR 0x0A] @ [CHR 0xF0, CHR 0x9F, CHR 0x93, CHR 0x9D] @ '' [Gemini '' @ [CHR 0xEC, CHR 0x9D, CHR 0x91, CHR 0xEB, CHR 0x8B, CHR 0xB5] @ ''] '' @ [CHR 0x0A]"

definition msg_html_response :: string where
  "msg_html_response = [CHR 0x0A] @ [CHR 0xF0, CHR 0x9F, CHR 0x93, CHR 0x9D] @ '' [HTML '' @ [CHR 0xEC, CHR 0x9D, CHR 0x91, CHR 0xEB, CHR 0x8B, CHR 0xB5] @ ''] '' @ [CHR 0x0A]"

definition msg_post_start :: string where
  "msg_post_start = ''API '' @ [CHR 0xED, CHR 0x8F, CHR 0xAC, CHR 0xEC, CHR 0x8A, CHR 0xA4, CHR 0xED, CHR 0x8A, CHR 0xB8] @ '' '' @ [CHR 0xEC, CHR 0x83, CHR 0x9D, CHR 0xEC, CHR 0x84, CHR 0xB1] @ '' '' @ [CHR 0xEC, CHR 0x8B, CHR 0x9C, CHR 0xEC, CHR 0x9E, CHR 0x91]"

definition post_title_suffix :: string where
  "post_title_suffix = '' '' @ [CHR 0xEC, CHR 0x98, CHR 0xA4, CHR 0xEB, CHR 0x8A, CHR 0x98, CHR 0xEC, CHR 0x9D, CHR 0x98] @ '' '' @ [CHR 0xEC, CHR 0x96, CHR 0xB4, CHR 0xEB, CHR 0xA6, CHR 0xB0, CHR 0xEC, CHR 0x9D, CHR 0xB4] @ '' '' @ [CHR 0xEB, CHR 0x89, CHR 0xB4, CHR 0xEC, CHR 0x8A, CHR 0xA4]"

definition post_category :: string where
  "post_category = [CHR 0xEC, CHR 0x96, CHR 0xB4, CHR 0xEB, CHR 0xA6, CHR 0xB0, CHR 0xEC, CHR 0x9D, CHR 0xB4, CHR 0xEB, CHR 0x89, CHR 0xB4, CHR 0xEC, CHR 0x8A, CHR 0xA4]"

definition msg_post_done :: string where
  "msg_post_done = ''API '' @ [CHR 0xED, CHR 0x8F, CHR 0xAC, CHR 0xEC, CHR 0x8A, CHR 0xA4, CHR 0xED, CHR 0x8A, CHR 0xB8] @ '' '' @ [CHR 0xEC, CHR 0x83, CHR 0x9D, CHR 0xEC, CHR 0x84, CHR 0xB1] @ '' '' @ [CHR 0xEC, CHR 0x99, CHR 0x84, CHR 0xEB, CHR 0xA3, CHR 0x8C]"

definition msg_api_error :: string where
  "msg_api_error = [CHR 0xE2, CHR 0x9D, CHR 0x8C] @ '' [ai-news-explainer] API '' @ [CHR 0xEC, CHR 0x98, CHR 0xA4, CHR 0xEB, CHR 0xA5, CHR 0x98] @ '' '' @ [CHR 0xEB, CHR 0xB0, CHR 0x9C, CHR 0xEC, CHR 0x83, CHR 0x9D] @ [CHR 0x0A] @ [CHR 0x0A]"

definition msg_post_error :: string where
  "msg_post_error = ''API '' @ [CHR 0xED, CHR 0x8F, CHR 0xAC, CHR 0xEC, CHR 0x8A, CHR 0xA4, CHR 0xED, CHR 0x8A, CHR 0xB8] @ '' '' @ [CHR 0xEC, CHR 0x83, CHR 0x9D, CHR 0xEC, CHR 0x84, CHR 0xB1] @ '' '' @ [CHR 0xEC, CHR 0x98, CHR 0xA4, CHR 0xEB, CHR 0xA5, CHR 0x98] @ '': ''"

definition msg_error :: string where
  "msg_error = [CHR 0xE2, CHR 0x9D, CHR 0x8C] @ '' '' @ [CHR 0xEC, CHR 0x97, CHR 0x90, CHR 0xEB, CHR 0x9F, CHR 0xAC] @ '' '' @ [CHR 0xEB, CHR 0xB0, CHR 0x9C, CHR 0xEC, CHR 0x83, CHR 0x9D] @ '': ''"

definition required_env_vars :: "string list" where
  "required_env_vars = [''PRESS_CODE'', ''GOOGLE_API_KEY'', ''GEMINI_MODEL'', ''BASE_URL'',
                        ''TELEGRAM_CHAT_TEST_ID'', ''TELEGRAM_CHAT_ID'', ''TELEGRAM_BOT_TOKEN'']"

text \<open>Lines 256 to 259: \<open>not os.getenv(var)\<close> holds for a variable that is unset and for
  one that is set to the empty string.\<close>

definition getenv_falsy :: "(string \<rightharpoonup> string) \<Rightarrow> string \<Rightarrow> bool" where
  "getenv_falsy environ var = (case environ var of None \<Rightarrow> True | Some v \<Rightarrow> v = [])"

definition missing_vars :: "(string \<rightharpoonup> string) \<Rightarrow> string list" where
  "missing_vars environ = filter (getenv_falsy environ) required_env_vars"

text \<open>An optional string inside an f-string.\<close>

definition str_opt :: "string option \<Rightarrow> string" where
  "str_opt v = (case v of None \<Rightarrow> ''None'' | Some s \<Rightarrow> s)"

text \<open>Steps that leave events and may raise, one after the other.\<close>

definition seq ::
  "event list \<times> (exn + 'a) \<Rightarrow> ('a \<Rightarrow> event list \<times> (exn + 'b)) \<Rightarrow> event list \<times> (exn + 'b)" where
  "seq step rest =
     (case step of
        (evs, Inl e) \<Rightarrow> (evs, Inl e)
      | (evs, Inr v) \<Rightarrow> (case rest v of (later, r) \<Rightarrow> (evs @ later, r)))"

definition log :: "level \<Rightarrow> string \<Rightarrow> event list \<times> (exn + unit)" where
  "log lvl message = ([Log lvl message], Inr ())"

text \<open>Lines 298 to 312: the post, with the handler for \<open>ApiError\<close> that notifies and logs.
  Any other exception, and one raised by the notification, goes on to the outer handler.\<close>

definition post_block :: "world \<Rightarrow> string \<Rightarrow> event list \<times> (exn + unit)" where
  "post_block w html_response =
     seq (log INFO msg_post_start) (\<lambda>_.
       let request = \<lparr> post_title = w_today w @ post_title_suffix,
                         post_content = html_response,
                         category = post_category,
                         writer = ''admin'',
                         image_paths = [],
                         thumbnail_image_path = w_thumbnail w \<rparr>;
           posted = [CreatePost (post_title request) (post_content request)]
       in case w_create_post w request of
            None \<Rightarrow> seq (posted, Inr ()) (\<lambda>_. log INFO msg_post_done)
          | Some (ApiError message) \<Rightarrow>
              (let error_message = msg_api_error @ message in
               case w_send_test_message w error_message of
                 Some e \<Rightarrow> (posted @ [TelegramSend error_message], Inl e)
               | None \<Rightarrow>
                   seq (posted @ [TelegramSend error_message], Inr ())
                       (\<lambda>_. log ERROR (msg_post_error @ message)))
          | Some e \<Rightarrow> (posted, Inl e))"

text \<open>Lines 279 to 312, the body of the outer \<open>try\<close>.\<close>

definition try_block :: "world \<Rightarrow> event list \<times> (exn + unit)" where
  "try_block w =
     (let press_code = str_opt (w_environ w ''PRESS_CODE'');
          headers = [(''User-Agent'', w_user_agent w)]
      in
      seq (getFirstArticleUrl (w_get w) (w_html_parser w) press_code (w_today_str w) headers) (\<lambda>article_url.
      seq (log INFO (msg_article_link @ article_url)) (\<lambda>_.
      seq (getArticleContent (w_get w) (w_html_parser w) (w_strip w) article_url headers) (\<lambda>content.
      seq (log INFO (msg_article_title @ fst content)) (\<lambda>_.
      seq (log INFO (msg_article_body @ snd content)) (\<lambda>_.
      seq (getGeminiResponse_default (w_generate_content w) (w_environ w) (w_libs w)
             (fst content) (snd content)) (\<lambda>response.
        case response of
          None \<Rightarrow>
            seq (log ERROR msg_gemini_failed_log) (\<lambda>_. ([], Inl (Exception msg_gemini_failed)))
        | Some response \<Rightarrow>
            seq (log INFO (msg_gemini_response @ response)) (\<lambda>_.
            seq ([], convertToHtml (w_loads w) (w_py_str w) response article_url) (\<lambda>html_response.
            seq (log INFO (msg_html_response @ html_response)) (\<lambda>_.
              post_block w html_response))))))))))"

text \<open>
  The whole run. Its result is the exception that leaves the program, if any: the
  \<open>ValueError\<close> of line 264. Every exception of the \<open>try\<close> block is caught by the handler
  of line 315 and logged.
\<close>

definition main :: "world \<Rightarrow> event list \<times> exn option" where
  "main w =
     (if missing_vars (w_environ w) \<noteq> [] then
        (let error_message = msg_env_missing @ join '', '' (missing_vars (w_environ w))
         in ([Log ERROR error_message], Some (ValueError error_message)))
      else
        (case try_block w of
           (evs, Inl e) \<Rightarrow> (evs @ [Log ERROR (msg_error @ str_exn e)], None)
         | (evs, Inr _) \<Rightarrow> (evs, None)))"

text \<open>The events that touch the network.\<close>

fun is_network :: "event \<Rightarrow> bool" where
  "is_network (HttpGet _) = True"
| "is_network (ModelCall _) = True"
| "is_network (CreatePost _ _) = True"
| "is_network (TelegramSend _) = True"
| "is_network _ = False"

text \<open>A world for illustration: the given environment, a transport that answers every
  request with status 200, a model that is overloaded on every call.\<close>

definition example_world :: "(string \<rightharpoonup> string) \<Rightarrow> world" where
  "example_world environ =
     \<lparr> w_environ = environ,
       w_today = ''2026-01-02'',
       w_today_str = ''20260102'',
       w_user_agent = ''Mozilla/5.0'',
       w_get = (\<lambda>_ _. Inr ok_response),
       w_html_parser = (\<lambda>_. page_empty_list),
       w_strip = (\<lambda>s. s),
       w_generate_content = (\<lambda>_ _. Raises ''503 UNAVAILABLE''),
       w_libs = healthy_libs,
       w_loads = (\<lambda>_. None),
       w_py_str = (\<lambda>_. []),
       w_create_post = (\<lambda>_. None),
       w_send_test_message = (\<lambda>_. None),
       w_thumbnail = ''img/main.png'' \<rparr>"

definition incomplete_environ :: "string \<rightharpoonup> string" where
  "incomplete_environ = map_of
     [(''PRESS_CODE'', ''015''), (''GOOGLE_API_KEY'', ''key''), (''BASE_URL'', ''https://example.com''),
      (''TELEGRAM_CHAT_TEST_ID'', ''1''), (''TELEGRAM_CHAT_ID'', ''2'')]"

section \<open>The retry loop of the summarization client\<close>

lemma sleep_message_not_transient:
  "\<not> is_transient ''sleep length must be non-negative''"
  by code_simp

lemma try_body_Raises: "api a = Raises m \<Longrightarrow> try_body api sd a = ([ModelCall a], Inl m)"
  by (simp add: try_body_def)


lemma try_body_Response_neg:
  "api a = Response t \<Longrightarrow> sd < 0 \<Longrightarrow>
   try_body api sd a = ([ModelCall a], Inl ''sleep length must be non-negative'')"
  by (simp add: try_body_def time_sleep_def)



lemma try_body_calls: "ModelCall n \<in> set (fst (try_body api sd a)) \<Longrightarrow> n = a"
  by (auto simp: try_body_def time_sleep_def split: api_outcome.splits sum.splits if_splits)

lemma try_body_transient:
  "try_body api sd a = (evs, Inl m) \<Longrightarrow> is_transient m \<Longrightarrow> fails_transiently api a \<and> evs = [ModelCall a]"
  using sleep_message_not_transient
  by (auto simp: try_body_def time_sleep_def fails_transiently_def split: api_outcome.splits sum.splits if_splits)


lemma backoff_events_step:
  "a < n \<Longrightarrow> backoff_events mr rd a n =
     [ModelCall a, Log WARNING (msg_overloaded (rd * 2 ^ a) a mr), Sleep (rd * 2 ^ a)]
       @ backoff_events mr rd (Suc a) n"
  by (simp add: backoff_events_def upt_conv_Cons)

lemma backoff_events_empty: "backoff_events mr rd a a = []"
  by (simp add: backoff_events_def)

lemma retry_loop_transient_step:
  assumes "fails_transiently api a" "int a < mr - 1" "0 \<le> rd * 2 ^ a"
  shows "retry_loop api mr rd sd (a # rest) =
     ([ModelCall a, Log WARNING (msg_overloaded (rd * 2 ^ a) a mr), Sleep (rd * 2 ^ a)]
        @ fst (retry_loop api mr rd sd rest), snd (retry_loop api mr rd sd rest))"
  using assms
  by (auto simp: fails_transiently_def try_body_def time_sleep_def Let_def
           split: api_outcome.splits prod.splits)

lemma retry_loop_prefix:
  assumes "\<forall>i. a \<le> i \<and> i < n \<longrightarrow> fails_transiently api i \<and> int i < mr - 1 \<and> 0 \<le> rd * 2 ^ i"
    and "a \<le> n" "n \<le> m"
  shows "retry_loop api mr rd sd [a ..< m] =
     (backoff_events mr rd a n @ fst (retry_loop api mr rd sd [n ..< m]),
      snd (retry_loop api mr rd sd [n ..< m]))"
  using assms
proof (induction "n - a" arbitrary: a)
  case 0
  then have "a = n" by simp
  then show ?case by (simp add: backoff_events_empty)
next
  case (Suc k)
  then have lt: "a < n" and am: "a < m" by auto
  from Suc.prems lt have step: "fails_transiently api a" "int a < mr - 1" "0 \<le> rd * 2 ^ a"
    by auto
  have ih: "retry_loop api mr rd sd [Suc a ..< m] =
     (backoff_events mr rd (Suc a) n @ fst (retry_loop api mr rd sd [n ..< m]),
      snd (retry_loop api mr rd sd [n ..< m]))"
    using Suc.hyps Suc.prems lt by (intro Suc.hyps(1)) auto
  have "[a ..< m] = a # [Suc a ..< m]" using am by (simp add: upt_conv_Cons)
  then show ?case
    using retry_loop_transient_step[OF step, of sd "[Suc a ..< m]"] ih
    by (simp add: backoff_events_step[OF lt])
qed

lemma retry_loop_reach:
  "ModelCall n \<in> set (fst (retry_loop api mr rd sd [a ..< m])) \<Longrightarrow>
   a \<le> n \<and> n < m \<and>
   (\<forall>i. a \<le> i \<and> i < n \<longrightarrow> fails_transiently api i \<and> int i < mr - 1 \<and> 0 \<le> rd * 2 ^ i)"
proof (induction "m - a" arbitrary: a)
  case 0
  then show ?case by simp
next
  case (Suc k)
  then have am: "a < m" by auto
  then have unf: "[a ..< m] = a # [Suc a ..< m]" by (simp add: upt_conv_Cons)
  show ?case
  proof (cases "n = a")
    case True
    then show ?thesis using am by auto
  next
    case False
    obtain evs r where tb: "try_body api sd a = (evs, r)" by (cases "try_body api sd a")
    have notin: "ModelCall n \<notin> set evs"
      using try_body_calls[of n api sd a] tb False by auto
    from Suc.prems unf tb notin
    have "fails_transiently api a \<and> int a < mr - 1 \<and> 0 \<le> rd * 2 ^ a \<and>
          ModelCall n \<in> set (fst (retry_loop api mr rd sd [Suc a ..< m]))"
      using try_body_transient[of api sd a evs]
      by (auto simp: Let_def time_sleep_def split: sum.splits if_splits prod.splits)
    moreover from this Suc.hyps have "Suc a \<le> n \<and> n < m \<and>
      (\<forall>i. Suc a \<le> i \<and> i < n \<longrightarrow> fails_transiently api i \<and> int i < mr - 1 \<and> 0 \<le> rd * 2 ^ i)"
      by (intro Suc.hyps(1)) auto
    ultimately show ?thesis
      by (metis Suc_leD le_antisym not_less_eq_eq)
  qed
qed

lemma sleeps_append: "sleeps (xs @ ys) = sleeps xs @ sleeps ys"
  by (induction xs rule: sleeps.induct) auto

lemma calls_append: "calls (xs @ ys) = calls xs @ calls ys"
  by (induction xs rule: calls.induct) auto

lemma sleeps_backoff_events:
  "sleeps (backoff_events mr rd a n) = map (\<lambda>i. rd * 2 ^ i) [a ..< n]"
proof (induction "n - a" arbitrary: a)
  case 0
  then show ?case by (simp add: backoff_events_def)
next
  case (Suc k)
  then have lt: "a < n" by simp
  then show ?case
    using Suc.hyps(1)[of "Suc a"] Suc.hyps(2)
    by (simp add: backoff_events_step[OF lt] upt_conv_Cons)
qed

lemma calls_backoff_events:
  "calls (backoff_events mr rd a n) = [a ..< n]"
proof (induction "n - a" arbitrary: a)
  case 0
  then show ?case by (simp add: backoff_events_def)
next
  case (Suc k)
  then have lt: "a < n" by simp
  then show ?case
    using Suc.hyps(1)[of "Suc a"] Suc.hyps(2)
    by (simp add: backoff_events_step[OF lt] upt_conv_Cons)
qed

text \<open>A run that makes attempt \<open>n\<close> has had \<open>n\<close> transient failures with their backoff
  sleeps before it, and goes on as the loop started at \<open>n\<close> does.\<close>

lemma before_loop_failure:
  "before_loop env libs title body = Inl e \<Longrightarrow> getGeminiResponse gc env libs title body mr rd sd = ([], Inl e)"
  by (simp add: getGeminiResponse_def)

lemma run_reaches:
  assumes run: "getGeminiResponse gc env libs title body mr rd sd = (tr, res)"
    and reach: "ModelCall n \<in> set tr"
  shows "\<exists>request. before_loop env libs title body = Inr request \<and>
         int n < mr \<and>
         tr = backoff_events mr rd 0 n
                @ fst (retry_loop (gc request) mr rd sd (n # [Suc n ..< nat mr])) \<and>
         res = snd (retry_loop (gc request) mr rd sd (n # [Suc n ..< nat mr]))"
proof (cases "before_loop env libs title body")
  case (Inl e)
  with run reach show ?thesis by (simp add: getGeminiResponse_def)
next
  case (Inr request)
  let ?api = "gc request"
  from run Inr have eq: "retry_loop ?api mr rd sd [0 ..< nat mr] = (tr, res)"
    by (simp add: getGeminiResponse_def range_py_def)
  with reach have "ModelCall n \<in> set (fst (retry_loop ?api mr rd sd [0 ..< nat mr]))" by simp
  from retry_loop_reach[OF this]
  have n: "n < nat mr"
    and pre: "\<forall>i. 0 \<le> i \<and> i < n \<longrightarrow> fails_transiently ?api i \<and> int i < mr - 1 \<and> 0 \<le> rd * 2 ^ i"
    by auto
  from retry_loop_prefix[OF pre, of "nat mr" sd] n eq
  have "(tr, res) = (backoff_events mr rd 0 n @ fst (retry_loop ?api mr rd sd [n ..< nat mr]),
                     snd (retry_loop ?api mr rd sd [n ..< nat mr]))"
    by simp
  moreover have "[n ..< nat mr] = n # [Suc n ..< nat mr]" using n by (simp add: upt_conv_Cons)
  ultimately show ?thesis using n Inr by auto
qed




lemma retry_loop_no_exception:
  "0 \<le> rd \<Longrightarrow> \<exists>r. snd (retry_loop api mr rd sd xs) = Inr r"
proof (induction xs)
  case Nil
  then show ?case by simp
next
  case (Cons a xs)
  then have "\<not> rd * 2 ^ a < 0" by (simp add: not_less)
  with Cons show ?case
    by (auto simp: Let_def time_sleep_def split: prod.splits sum.splits)
qed


lemma retry_loop_fatal:
  assumes "api a = Raises msg" "\<not> is_transient msg"
  shows "retry_loop api mr rd sd (a # rest) =
           ([ModelCall a, Log ERROR (msg_unexpected_error @ msg)], Inr None)"
  using assms by (simp add: try_body_Raises)

lemma retry_loop_returns_answer:
  "snd (retry_loop api mr rd sd xs) = Inr (Some answer) \<Longrightarrow> \<exists>k \<in> set xs. api k = Response answer"
  by (induction xs)
     (auto simp: Let_def time_sleep_def try_body_def
           split: prod.splits sum.splits if_splits api_outcome.splits)

text \<open>
  Claim C2, as stated, says that no exception ever reaches the caller. The steps before
  the loop (lines 57 to 86) are outside the \<open>try\<close>: when \<open>prompt.md\<close> cannot be opened, the
  \<open>FileNotFoundError\<close> of line 65 leaves the function, before any call of the model.
\<close>

theorem missing_prompt_counterexample:
  "getGeminiResponse_default overloaded_then_answers no_environ missing_prompt_libs ''title'' ''body''
     = ([], Inl (FileNotFoundError ''[Errno 2] No such file or directory: prompt.md''))"
  by (simp add: getGeminiResponse_default_def getGeminiResponse_def before_loop_def
        missing_prompt_libs_def)

text \<open>
  Claim C2, amended. For every title and body, once the steps before the loop have built
  the request, the call with the default arguments raises nothing, whatever the model
  does: it returns \<open>None\<close> or a text, and a text it returns is the response of one of the
  three attempts. So every failure of the model call reaches the caller as \<open>None\<close>.
\<close>

theorem no_exception_escapes:
  assumes built: "before_loop env libs title body = Inr request"
  shows "\<exists>tr r. getGeminiResponse_default gc env libs title body = (tr, Inr r)
       \<and> (case r of None \<Rightarrow> True
           | Some answer \<Rightarrow> \<exists>k. k < 3 \<and> gc request k = Response answer)"
proof -
  let ?api = "gc request"
  let ?run = "retry_loop ?api 3 5 3 (range_py 3)"
  obtain r where r: "snd ?run = Inr r"
    using retry_loop_no_exception[of 5 ?api 3 3 "range_py 3"] by auto
  have "case r of None \<Rightarrow> True | Some answer \<Rightarrow> \<exists>k. k < 3 \<and> ?api k = Response answer"
  proof (cases r)
    case None
    then show ?thesis by simp
  next
    case (Some answer)
    with r retry_loop_returns_answer[of ?api 3 5 3 "range_py 3" answer]
    show ?thesis by (auto simp: range_py_def)
  qed
  with r built show ?thesis
    by (cases ?run) (auto simp: getGeminiResponse_default_def getGeminiResponse_def)
qed

text \<open>
  Claim C3, as stated, says that a non-transient error always ends the operation after
  exactly one attempt and without any sleep. That holds only for an error on the first
  attempt: a non-transient error on the second attempt comes after one transient failure
  and its backoff sleep. Here the model is overloaded on attempt 0 and rejects the request
  on attempt 1; the run makes two attempts and sleeps 5 seconds between them.
\<close>

theorem fatal_error_after_retry_counterexample:
  "before_loop no_environ healthy_libs [] [] = Inr (build_request no_environ [] [] [])
   \<and> overloaded_then_rejected (build_request no_environ [] [] []) 1 = Raises ''400 INVALID_ARGUMENT''
   \<and> \<not> is_transient ''400 INVALID_ARGUMENT''
   \<and> snd (getGeminiResponse overloaded_then_rejected no_environ healthy_libs [] [] 3 5 3) = Inr None
   \<and> calls (fst (getGeminiResponse overloaded_then_rejected no_environ healthy_libs [] [] 3 5 3)) = [0, 1]
   \<and> sleeps (fst (getGeminiResponse overloaded_then_rejected no_environ healthy_libs [] [] 3 5 3)) = [5]"
proof -
  have "before_loop no_environ healthy_libs [] [] = Inr (build_request no_environ [] [] [])"
    by (simp add: before_loop_def healthy_libs_def)
  moreover have "overloaded_then_rejected (build_request no_environ [] [] []) 1 = Raises ''400 INVALID_ARGUMENT''"
    by (simp add: overloaded_then_rejected_def)
  moreover have "\<not> is_transient ''400 INVALID_ARGUMENT''" by code_simp
  moreover have "snd (getGeminiResponse overloaded_then_rejected no_environ healthy_libs [] [] 3 5 3) = Inr None"
    by code_simp
  moreover have "calls (fst (getGeminiResponse overloaded_then_rejected no_environ healthy_libs [] [] 3 5 3)) = [0, 1]"
    by code_simp
  moreover have "sleeps (fst (getGeminiResponse overloaded_then_rejected no_environ healthy_libs [] [] 3 5 3)) = [5]"
    by code_simp
  ultimately show ?thesis by blast
qed

text \<open>
  Claim C3, amended. When attempt \<open>n\<close> fails with an error whose message contains none of
  the transient markers, the run ends there: after the call only the error is logged, the
  result is \<open>None\<close>, and no attempt and no sleep follows. The attempts made are \<open>0\<close> to
  \<open>n\<close> and the sleeps are the backoff sleeps of the \<open>n\<close> earlier transient failures, so
  when the error is on the first attempt the whole run is that one call, with no sleep.
\<close>

theorem fatal_error_no_retry:
  assumes run: "getGeminiResponse gc env libs title body max_retries retry_delay success_delay = (tr, res)"
    and reach: "ModelCall n \<in> set tr"
    and err: "\<And>request. before_loop env libs title body = Inr request
                \<Longrightarrow> gc request n = Raises error_message"
    and fatal: "\<not> is_transient error_message"
  shows "tr = backoff_events max_retries retry_delay 0 n
                @ [ModelCall n, Log ERROR (msg_unexpected_error @ error_message)]
       \<and> res = Inr None
       \<and> calls tr = [0 ..< Suc n]
       \<and> sleeps tr = map (\<lambda>i. retry_delay * 2 ^ i) [0 ..< n]
       \<and> (n = 0 \<longrightarrow> tr = [ModelCall 0, Log ERROR (msg_unexpected_error @ error_message)])"
proof -
  from run_reaches[OF run reach]
  obtain request where built: "before_loop env libs title body = Inr request"
    and more: "tr = backoff_events max_retries retry_delay 0 n
                 @ fst (retry_loop (gc request) max_retries retry_delay success_delay
                          (n # [Suc n ..< nat max_retries]))"
      "res = snd (retry_loop (gc request) max_retries retry_delay success_delay
                          (n # [Suc n ..< nat max_retries]))"
    by blast
  from more retry_loop_fatal[of "gc request" n, OF err[OF built] fatal]
  have tr: "tr = backoff_events max_retries retry_delay 0 n
                @ [ModelCall n, Log ERROR (msg_unexpected_error @ error_message)]"
    and res: "res = Inr None"
    by auto
  from tr have "calls tr = [0 ..< Suc n]"
    by (simp add: calls_append calls_backoff_events)
  moreover from tr have "sleeps tr = map (\<lambda>i. retry_delay * 2 ^ i) [0 ..< n]"
    by (simp add: sleeps_append sleeps_backoff_events)
  moreover from tr have "n = 0 \<longrightarrow> tr = [ModelCall 0, Log ERROR (msg_unexpected_error @ error_message)]"
    by (auto simp: backoff_events_empty)
  ultimately show ?thesis using tr res by blast
qed



theorem no_exception_escapes_witness:
  "(\<exists>tr r. getGeminiResponse_default overloaded_then_answers no_environ healthy_libs [] [] = (tr, Inr r)
       \<and> (case r of None \<Rightarrow> True
           | Some answer \<Rightarrow> \<exists>k. k < 3 \<and>
               overloaded_then_answers (build_request no_environ [] [] []) k = Response answer))
   \<and> snd (getGeminiResponse_default overloaded_then_answers no_environ healthy_libs [] [])
       = Inr (Some ''{}'')"
proof -
  have built: "before_loop no_environ healthy_libs [] [] = Inr (build_request no_environ [] [] [])"
    by (simp add: before_loop_def healthy_libs_def)
  have "snd (getGeminiResponse_default overloaded_then_answers no_environ healthy_libs [] [])
          = Inr (Some ''{}'')"
    by code_simp
  with no_exception_escapes[OF built, of overloaded_then_answers]
  show ?thesis by blast
qed

theorem fatal_error_no_retry_witness:
  "fst (getGeminiResponse (\<lambda>_ _. Raises ''400 INVALID_ARGUMENT'') Map.empty healthy_libs [] [] 3 5 3)
     = [ModelCall 0, Log ERROR (msg_unexpected_error @ ''400 INVALID_ARGUMENT'')]
   \<and> snd (getGeminiResponse (\<lambda>_ _. Raises ''400 INVALID_ARGUMENT'') Map.empty healthy_libs [] [] 3 5 3)
     = Inr None
   \<and> calls (fst (getGeminiResponse (\<lambda>_ _. Raises ''400 INVALID_ARGUMENT'') Map.empty healthy_libs [] [] 3 5 3))
     = [0]
   \<and> sleeps (fst (getGeminiResponse (\<lambda>_ _. Raises ''400 INVALID_ARGUMENT'') Map.empty healthy_libs [] [] 3 5 3))
     = []"
proof -
  let ?gc = "\<lambda>(_::gen_request) (_::nat). Raises ''400 INVALID_ARGUMENT''"
  let ?run = "getGeminiResponse ?gc Map.empty healthy_libs [] [] 3 5 3"
  have run: "?run = (fst ?run, snd ?run)" by simp
  have reach: "ModelCall 0 \<in> set (fst ?run)" by code_simp
  have err: "\<And>request. ?gc request 0 = Raises ''400 INVALID_ARGUMENT''" by simp
  have fatal: "\<not> is_transient ''400 INVALID_ARGUMENT''" by code_simp
  have c: "[0 ..< Suc 0] = [0]" and m: "map (\<lambda>i. (5::int) * 2 ^ i) [0 ..< 0] = []" by simp_all
  from fatal_error_no_retry[where gc = ?gc, OF run reach err fatal]
  have "fst ?run = [ModelCall 0, Log ERROR (msg_unexpected_error @ ''400 INVALID_ARGUMENT'')]
        \<and> snd ?run = Inr None \<and> calls (fst ?run) = [0 ..< Suc 0]
        \<and> sleeps (fst ?run) = map (\<lambda>i. 5 * 2 ^ i) [0 ..< 0]"
    by blast
  then show ?thesis unfolding c m by blast
qed


text \<open>Outside the domain of sleep lengths: a negative \<open>success_delay\<close> makes the sleep of
  line 98 raise inside the \<open>try\<close>, which the handler reports as an unexpected error; a
  negative \<open>retry_delay\<close> makes the sleep of line 108 raise inside the handler, and that
  exception leaves the function.\<close>

lemma success_sleep_rejected:
  assumes "api a = Response answer" "sd < 0"
  shows "retry_loop api mr rd sd (a # rest) =
           ([ModelCall a, Log ERROR (msg_unexpected_error @ ''sleep length must be non-negative'')],
            Inr None)"
  using assms sleep_message_not_transient by (simp add: try_body_Response_neg)

lemma backoff_sleep_rejected:
  assumes "fails_transiently api a" "int a < mr - 1" "rd < 0"
  shows "snd (retry_loop api mr rd sd (a # rest)) = Inl (ValueError ''sleep length must be non-negative'')"
proof -
  from assms(3) have "rd * 2 ^ a < 0" by (simp add: mult_neg_pos)
  with assms(1,2) show ?thesis
    by (auto simp: fails_transiently_def try_body_def time_sleep_def Let_def
             split: api_outcome.splits)
qed

section \<open>The response renderer\<close>

lemma py_getitem_present:
  "key \<in> set (map fst items) \<Longrightarrow> \<exists>v. py_getitem (JObject items) key = Inr v \<and> map_of items key = Some v"
  by (cases "map_of items key") (auto simp: map_of_eq_None_iff)

lemma py_getitem_absent:
  "key \<notin> set (map fst items) \<Longrightarrow> py_getitem (JObject items) key = Inl (KeyError key)"
  by (cases "map_of items key") (auto simp: map_of_eq_None_iff[symmetric])

lemma check_required_keys_first_absent:
  assumes "\<forall>k \<in> set pre. py_in k json_response = Inr True"
    and "py_in key json_response = Inr False"
  shows "check_required_keys (pre @ key # post) json_response
           = Inl (Exception (msg_missing_key_1 @ key @ msg_missing_key_2))"
  using assms by (induction pre) auto

text \<open>The membership test is defined for every key or for none: it depends on the type of
  the response only.\<close>

lemma py_in_defined:
  "py_in k json_response = Inr b \<Longrightarrow> py_in k' json_response = Inr True \<or> py_in k' json_response = Inr False"
  by (cases json_response) auto

lemma check_required_keys_all_present:
  "(\<forall>k \<in> set keys. k \<in> set (map fst items)) \<Longrightarrow> check_required_keys keys (JObject items) = Inr ()"
  by (induction keys) auto

lemma first_missing_split:
  assumes "\<exists>k \<in> set keys. \<not> P k"
  shows "\<exists>pre key post. keys = pre @ key # post \<and> (\<forall>k \<in> set pre. P k) \<and> \<not> P key"
  using assms
proof (induction keys)
  case Nil
  then show ?case by simp
next
  case (Cons k keys)
  show ?case
  proof (cases "P k")
    case False
    then have "k # keys = [] @ k # keys \<and> (\<forall>k \<in> set []. P k) \<and> \<not> P k" by simp
    then show ?thesis by blast
  next
    case True
    with Cons obtain pre key post where "keys = pre @ key # post" "\<forall>k \<in> set pre. P k" "\<not> P key"
      by auto
    with True have "k # keys = (k # pre) @ key # post \<and> (\<forall>x \<in> set (k # pre). P x) \<and> \<not> P key"
      by simp
    then show ?thesis by blast
  qed
qed

text \<open>
  Claim C5, as stated, covers every well-formed JSON response that lacks a required
  field. The response \<open>null\<close> is well-formed and has none of the fields, but the membership
  test of line 127 is not defined on it: rendering ends with a \<open>TypeError\<close>, which names no
  field, and not with the exception of line 128.
\<close>

theorem null_response_counterexample:
  "example_loads ''null'' = Some JNull
   \<and> convertToHtml example_loads example_str ''null'' ''https://example.com/a1''
       = Inl (TypeError ''NoneType'')
   \<and> convertToHtml example_loads example_str ''null'' ''https://example.com/a1''
       \<noteq> Inl (Exception (msg_missing_key_1 @ ''title'' @ msg_missing_key_2))"
  by (simp add: example_loads_def convertToHtml_def required_keys_def)

text \<open>
  Claim C5, amended. When the response parses to a value on which the membership test is
  defined (an object, an array or a string) and the test fails for at least one of the
  seven required fields (for an object: the field is missing), rendering raises the
  exception whose message names the first such field in the order \<open>title, summary,
  meaning, importance, impact_on_us, food_for_thought, key_terms\<close>: the test holds for
  every field before it and fails for it, and the outcome is the same for every response
  that agrees on these fields, whatever later fields it has or lacks.
\<close>

theorem missing_field_named:
  assumes parsed: "loads response = Some json_response"
    and lacks: "\<exists>k \<in> set required_keys. py_in k json_response = Inr False"
  shows "\<exists>pre key post.
           required_keys = pre @ key # post
         \<and> (\<forall>k \<in> set pre. py_in k json_response = Inr True)
         \<and> py_in key json_response = Inr False
         \<and> (\<forall>items. json_response = JObject items \<longrightarrow>
               (\<forall>k \<in> set pre. k \<in> set (map fst items)) \<and> key \<notin> set (map fst items))
         \<and> convertToHtml loads py_str response article_url
             = Inl (Exception (msg_missing_key_1 @ key @ msg_missing_key_2))
         \<and> (\<forall>loads' json_response'.
               loads' response = Some json_response'
             \<and> (\<forall>k \<in> set (pre @ [key]). py_in k json_response' = py_in k json_response)
             \<longrightarrow> convertToHtml loads' py_str response article_url
                   = Inl (Exception (msg_missing_key_1 @ key @ msg_missing_key_2)))"
proof -
  from lacks
  obtain pre key post where split: "required_keys = pre @ key # post"
    and pre: "\<forall>k \<in> set pre. py_in k json_response = Inr True"
    and key': "py_in key json_response \<noteq> Inr True"
    using first_missing_split[of required_keys "\<lambda>k. py_in k json_response = Inr True"] by force
  from lacks obtain k0 where "py_in k0 json_response = Inr False" by blast
  from py_in_defined[OF this, of key] key'
  have key: "py_in key json_response = Inr False" by blast
  have object: "\<forall>items. json_response = JObject items \<longrightarrow>
               (\<forall>k \<in> set pre. k \<in> set (map fst items)) \<and> key \<notin> set (map fst items)"
    using pre key by force
  have here: "convertToHtml loads py_str response article_url
             = Inl (Exception (msg_missing_key_1 @ key @ msg_missing_key_2))"
    using parsed check_required_keys_first_absent[OF pre key, of post]
    by (simp add: convertToHtml_def split)
  have other: "\<forall>loads' json_response'.
               loads' response = Some json_response'
             \<and> (\<forall>k \<in> set (pre @ [key]). py_in k json_response' = py_in k json_response)
             \<longrightarrow> convertToHtml loads' py_str response article_url
                   = Inl (Exception (msg_missing_key_1 @ key @ msg_missing_key_2))"
  proof (intro allI impI)
    fix loads' json_response'
    assume h: "loads' response = Some json_response'
             \<and> (\<forall>k \<in> set (pre @ [key]). py_in k json_response' = py_in k json_response)"
    then have pre': "\<forall>k \<in> set pre. py_in k json_response' = Inr True"
      and key'': "py_in key json_response' = Inr False"
      using pre key by auto
    show "convertToHtml loads' py_str response article_url
                   = Inl (Exception (msg_missing_key_1 @ key @ msg_missing_key_2))"
      using h check_required_keys_first_absent[OF pre' key'', of post]
      by (simp add: convertToHtml_def split)
  qed
  from split pre key object here other show ?thesis by blast
qed

theorem missing_field_named_witness:
  "convertToHtml (\<lambda>_. Some example_payload_without_meaning) example_str ''{}''
     ''https://example.com/a1''
   = Inl (Exception (msg_missing_key_1 @ ''meaning'' @ msg_missing_key_2))"
proof -
  let ?loads = "\<lambda>_::string. Some example_payload_without_meaning"
  have parsed: "?loads ''{}'' = Some example_payload_without_meaning" by simp
  have lacks: "\<exists>k \<in> set required_keys. py_in k example_payload_without_meaning = Inr False"
    by (simp add: required_keys_def example_payload_without_meaning_def)
  from missing_field_named[where loads = ?loads and response = "''{}''"
           and json_response = example_payload_without_meaning
           and py_str = example_str and article_url = "''https://example.com/a1''", OF parsed lacks]
  obtain pre key post where split: "required_keys = pre @ key # post"
    and key: "py_in key example_payload_without_meaning = Inr False"
    and res: "convertToHtml ?loads example_str ''{}'' ''https://example.com/a1''
                = Inl (Exception (msg_missing_key_1 @ key @ msg_missing_key_2))"
    by blast
  have "key \<in> set (pre @ key # post)" by simp
  then have "key \<in> set required_keys" by (simp only: split)
  with key have "key = ''meaning''"
    by (auto simp: required_keys_def example_payload_without_meaning_def)
  with res show ?thesis by simp
qed

text \<open>On an array the test is membership among the elements, so an array without the
  string \<open>title\<close> is reported as lacking \<open>title\<close>.\<close>

lemma array_response_names_title:
  assumes "loads response = Some (JArray xs)" "JString ''title'' \<notin> set xs"
  shows "convertToHtml loads py_str response article_url
           = Inl (Exception (msg_missing_key_1 @ ''title'' @ msg_missing_key_2))"
  using assms by (simp add: convertToHtml_def required_keys_def)

text \<open>A response that is a number, a boolean or \<open>null\<close> has no membership test: line 127
  raises a \<open>TypeError\<close>.\<close>

lemma scalar_response_type_error:
  assumes "loads response = Some j" "j = JNull \<or> j = JBool b \<or> j = JInt i \<or> j = JFloat f"
  shows "convertToHtml loads py_str response article_url = Inl (TypeError (type_name j))"
  using assms by (auto simp: convertToHtml_def required_keys_def)

lemma term_html_object:
  "term_html py_str (JObject entry) =
     (if ''term'' \<notin> set (map fst entry) then Inl (KeyError ''term'')
      else if ''definition'' \<notin> set (map fst entry) then Inl (KeyError ''definition'')
      else Inr (term_html_0 @ format_field py_str (the (map_of entry ''term'')) @ term_html_1
                  @ format_field py_str (the (map_of entry ''definition'')) @ term_html_2))"
proof -
  have mem: "\<And>k. (k \<in> fst ` set entry) = (map_of entry k \<noteq> None)"
    by (simp add: map_of_eq_None_iff)
  show ?thesis
    by (cases "map_of entry ''term''"; cases "map_of entry ''definition''")
       (simp_all add: term_html_def mem)
qed

lemma term_html_non_object:
  "\<not> is_object e \<Longrightarrow> term_html py_str e = Inl (TypeError (type_name e))"
  by (cases e) (auto simp: term_html_def is_object_def)

lemma term_html_complete:
  "complete_entry e \<Longrightarrow> \<exists>h. term_html py_str e = Inr h"
  by (cases e) (auto simp: complete_entry_def term_html_object)

lemma term_html_incomplete_object:
  "is_object e \<Longrightarrow> \<not> complete_entry e \<Longrightarrow>
   term_html py_str e = Inl (KeyError ''term'') \<or> term_html py_str e = Inl (KeyError ''definition'')"
  by (cases e) (auto simp: complete_entry_def is_object_def term_html_object)

lemma key_terms_loop_incomplete:
  assumes "\<forall>e \<in> set entries. is_object e" and "\<exists>e \<in> set entries. \<not> complete_entry e"
  shows "key_terms_loop py_str entries acc = Inl (KeyError ''term'')
       \<or> key_terms_loop py_str entries acc = Inl (KeyError ''definition'')"
  using assms
proof (induction entries arbitrary: acc)
  case Nil
  then show ?case by simp
next
  case (Cons e entries)
  show ?case
  proof (cases "complete_entry e")
    case True
    then obtain h where "term_html py_str e = Inr h" using term_html_complete by blast
    moreover from True Cons.prems have "\<forall>e \<in> set entries. is_object e" "\<exists>e \<in> set entries. \<not> complete_entry e"
      by auto
    ultimately show ?thesis using Cons.IH[of "acc @ [h]"] by simp
  next
    case False
    with Cons.prems term_html_incomplete_object[of e py_str] show ?thesis by auto
  qed
qed

lemma key_terms_loop_raw_error:
  assumes "\<exists>e \<in> set entries. \<not> complete_entry e"
  shows "key_terms_loop py_str entries acc = Inl (KeyError ''term'')
       \<or> key_terms_loop py_str entries acc = Inl (KeyError ''definition'')
       \<or> (\<exists>t. key_terms_loop py_str entries acc = Inl (TypeError t))"
  using assms
proof (induction entries arbitrary: acc)
  case Nil
  then show ?case by simp
next
  case (Cons e entries)
  show ?case
  proof (cases "complete_entry e")
    case True
    then obtain h where "term_html py_str e = Inr h" using term_html_complete by blast
    moreover from True Cons.prems have "\<exists>e \<in> set entries. \<not> complete_entry e" by auto
    ultimately show ?thesis using Cons.IH[of "acc @ [h]"] by simp
  next
    case False
    then show ?thesis
      using term_html_incomplete_object[of e py_str] term_html_non_object[of e py_str]
      by (cases "is_object e") auto
  qed
qed

lemma render_template_key_terms:
  assumes "\<forall>k \<in> set required_keys. k \<in> set (map fst items)"
    and "map_of items ''key_terms'' = Some key_terms"
    and "generate_key_terms_html py_str key_terms = Inl e"
  shows "render_template py_str (JObject items) article_url = Inl e"
proof -
  have "\<And>k. k \<in> set required_keys \<Longrightarrow> \<exists>v. py_getitem (JObject items) k = Inr v"
    using assms(1) py_getitem_present by blast
  then obtain v1 v2 v3 v4 v5 v6 where
    "py_getitem (JObject items) ''title'' = Inr v1"
    "py_getitem (JObject items) ''summary'' = Inr v2"
    "py_getitem (JObject items) ''meaning'' = Inr v3"
    "py_getitem (JObject items) ''importance'' = Inr v4"
    "py_getitem (JObject items) ''impact_on_us'' = Inr v5"
    "py_getitem (JObject items) ''food_for_thought'' = Inr v6"
    unfolding required_keys_def by (metis list.set_intros)
  moreover have "py_getitem (JObject items) ''key_terms'' = Inr key_terms"
    using assms(2) by simp
  ultimately show ?thesis
    using assms(3) by (simp add: render_template_def and_then_def)
qed

text \<open>
  Claim C10. Only the seven top-level fields are checked. When the response is an object
  with all seven fields and some entry of \<open>key_terms\<close> is not an object with both \<open>term\<close>
  and \<open>definition\<close>, rendering ends with the exception of the failed lookup of line 137
  or 140: the \<open>KeyError\<close> of the missing key, or a \<open>TypeError\<close> when the entry is not an
  object at all. It is never the exception that names a missing required field, and no
  document is returned. When the entries are objects, as in the data model, it is the
  \<open>KeyError\<close>.
\<close>

theorem malformed_key_terms_raw_error:
  assumes parsed: "loads response = Some (JObject items)"
    and seven: "\<forall>k \<in> set required_keys. k \<in> set (map fst items)"
    and key_terms: "map_of items ''key_terms'' = Some key_terms"
    and entries: "py_iter key_terms = Inr entries"
    and lacking: "\<exists>e \<in> set entries. \<not> complete_entry e"
  shows "(convertToHtml loads py_str response article_url = Inl (KeyError ''term'')
          \<or> convertToHtml loads py_str response article_url = Inl (KeyError ''definition'')
          \<or> (\<exists>t. convertToHtml loads py_str response article_url = Inl (TypeError t)))
       \<and> ((\<forall>e \<in> set entries. is_object e) \<longrightarrow>
            convertToHtml loads py_str response article_url = Inl (KeyError ''term'')
          \<or> convertToHtml loads py_str response article_url = Inl (KeyError ''definition''))"
proof -
  let ?result = "convertToHtml loads py_str response article_url"
  have gen: "generate_key_terms_html py_str key_terms = Inl e \<Longrightarrow> ?result = Inl e" for e
    using parsed check_required_keys_all_present[OF seven]
      render_template_key_terms[OF seven key_terms]
    by (simp add: convertToHtml_def)
  have loop: "key_terms_loop py_str entries [] = Inl e
                \<Longrightarrow> generate_key_terms_html py_str key_terms = Inl e" for e
    using entries by (simp add: generate_key_terms_html_def)
  have any: "?result = Inl (KeyError ''term'') \<or> ?result = Inl (KeyError ''definition'')
             \<or> (\<exists>t. ?result = Inl (TypeError t))"
    using key_terms_loop_raw_error[OF lacking, of py_str "[]"] gen loop by blast
  have objs: "(\<forall>e \<in> set entries. is_object e) \<longrightarrow>
            ?result = Inl (KeyError ''term'') \<or> ?result = Inl (KeyError ''definition'')"
  proof
    assume "\<forall>e \<in> set entries. is_object e"
    from key_terms_loop_incomplete[OF this lacking, of py_str "[]"] gen loop
    show "?result = Inl (KeyError ''term'') \<or> ?result = Inl (KeyError ''definition'')" by blast
  qed
  from any objs show ?thesis by blast
qed

theorem malformed_key_terms_raw_error_witness:
  "convertToHtml (\<lambda>_. Some example_payload_incomplete) (\<lambda>_. []) example_response
     ''https://example.com/a1'' = Inl (KeyError ''definition'')"
proof -
  let ?entries = "[JObject [(''term'', JString ''GDP''), (''definition'', JString ''...'')],
                   JObject [(''term'', JString ''CPI'')]]"
  let ?items = "[(''title'', JString ''T''), (''summary'', JString ''S''), (''meaning'', JString ''M''),
      (''importance'', JString ''I''), (''impact_on_us'', JString ''U''),
      (''food_for_thought'', JString ''F''), (''key_terms'', JArray ?entries)]"
  let ?loads = "\<lambda>_::string. Some example_payload_incomplete"
  let ?result = "convertToHtml ?loads (\<lambda>_. []) example_response ''https://example.com/a1''"
  have parsed: "?loads example_response = Some (JObject ?items)"
    by (simp add: example_payload_incomplete_def)
  have seven: "\<forall>k \<in> set required_keys. k \<in> set (map fst ?items)"
    by (simp add: required_keys_def)
  have key_terms: "map_of ?items ''key_terms'' = Some (JArray ?entries)" by simp
  have entries: "py_iter (JArray ?entries) = Inr ?entries" by simp
  have objects: "\<forall>e \<in> set ?entries. is_object e" by (simp add: is_object_def)
  have lacking: "\<exists>e \<in> set ?entries. \<not> complete_entry e" by (simp add: complete_entry_def)
  have "?result \<noteq> Inl (KeyError ''term'')"
    by (simp add: convertToHtml_def example_payload_incomplete_def required_keys_def
          render_template_def and_then_def generate_key_terms_html_def term_html_def)
  with malformed_key_terms_raw_error[where loads = ?loads and response = example_response
         and items = ?items and key_terms = "JArray ?entries" and entries = ?entries
         and py_str = "\<lambda>_. []" and article_url = "''https://example.com/a1''",
         OF parsed seven key_terms entries lacking] objects
  show ?thesis by blast
qed

lemma key_present_iff: "(k \<in> set (map fst items)) = (map_of items k \<noteq> None)"
  by (simp add: map_of_eq_None_iff)

lemma check_required_keys_cong:
  assumes "\<forall>k \<in> set keys. (k \<in> set (map fst items1)) = (k \<in> set (map fst items2))"
  shows "check_required_keys keys (JObject items1) = check_required_keys keys (JObject items2)"
  using assms by (induction keys) auto

text \<open>
  Claim C8. Rendering is deterministic: two invocations with the same article URL and the
  same raw response give the same result, byte for byte. The same holds for two
  responses that parse to objects with the same values of the seven required fields:
  the document is a function of these fields and the URL.
\<close>

theorem render_deterministic:
  assumes url: "article_url1 = article_url2"
    and same: "response1 = response2
       \<or> (\<exists>items1 items2. loads response1 = Some (JObject items1)
              \<and> loads response2 = Some (JObject items2)
              \<and> (\<forall>k \<in> set required_keys. map_of items1 k = map_of items2 k))"
  shows "convertToHtml loads py_str response1 article_url1
           = convertToHtml loads py_str response2 article_url2"
  using same
proof
  assume "response1 = response2"
  with url show ?thesis by simp
next
  assume "\<exists>items1 items2. loads response1 = Some (JObject items1)
              \<and> loads response2 = Some (JObject items2)
              \<and> (\<forall>k \<in> set required_keys. map_of items1 k = map_of items2 k)"
  then obtain items1 items2 where p1: "loads response1 = Some (JObject items1)"
    and p2: "loads response2 = Some (JObject items2)"
    and agree: "\<forall>k \<in> set required_keys. map_of items1 k = map_of items2 k"
    by blast
  have "\<forall>k \<in> set required_keys. (k \<in> set (map fst items1)) = (k \<in> set (map fst items2))"
    unfolding key_present_iff using agree by simp
  then have "check_required_keys required_keys (JObject items1)
          = check_required_keys required_keys (JObject items2)"
    by (rule check_required_keys_cong)
  moreover have "render_template py_str (JObject items1) article_url1
          = render_template py_str (JObject items2) article_url2"
    using agree url by (simp add: render_template_def required_keys_def)
  ultimately show ?thesis using p1 p2 by (simp add: convertToHtml_def split: sum.splits)
qed

theorem render_deterministic_witness:
  "convertToHtml (\<lambda>_. Some example_payload) (\<lambda>_. []) example_response ''https://example.com/a1''
     = convertToHtml (\<lambda>_. Some example_payload) (\<lambda>_. []) example_response ''https://example.com/a1''
   \<and> convertToHtml (\<lambda>_. Some example_payload) (\<lambda>_. []) example_response ''https://example.com/a1''
     = Inr (html_0 @ ''T'' @ html_1 @ ''S'' @ html_2 @ ''M'' @ html_3 @ ''I'' @ html_4 @ ''U''
            @ html_5 @ ''F'' @ html_6 @ (term_html_0 @ ''GDP'' @ term_html_1 @ ''...'' @ term_html_2)
            @ html_7 @ ''https://example.com/a1'' @ html_8)"
proof -
  have url: "''https://example.com/a1'' = ''https://example.com/a1''" by simp
  have same: "example_response = example_response
       \<or> (\<exists>items1 items2. (\<lambda>_. Some example_payload) example_response = Some (JObject items1)
              \<and> (\<lambda>_. Some example_payload) example_response = Some (JObject items2)
              \<and> (\<forall>k \<in> set required_keys. map_of items1 k = map_of items2 k))"
    by simp
  have "convertToHtml (\<lambda>_. Some example_payload) (\<lambda>_. []) example_response ''https://example.com/a1''
     = Inr (html_0 @ ''T'' @ html_1 @ ''S'' @ html_2 @ ''M'' @ html_3 @ ''I'' @ html_4 @ ''U''
            @ html_5 @ ''F'' @ html_6 @ (term_html_0 @ ''GDP'' @ term_html_1 @ ''...'' @ term_html_2)
            @ html_7 @ ''https://example.com/a1'' @ html_8)"
    by (simp add: convertToHtml_def example_payload_def required_keys_def
          render_template_def and_then_def generate_key_terms_html_def term_html_def
          format_field_def)
  then show ?thesis
    by (rule conjI[OF render_deterministic[where loads = "\<lambda>_. Some example_payload"
                        and py_str = "\<lambda>_. []", OF url same]])
qed

text \<open>The output is a function of the parsed payload and the URL alone.\<close>

lemma render_same_payload:
  "loads response1 = loads response2 \<Longrightarrow>
   convertToHtml loads py_str response1 article_url = convertToHtml loads py_str response2 article_url"
  by (simp add: convertToHtml_def)

section \<open>The article locator and the article extractor\<close>

lemma first_article_link_no_brick:
  "soup_find soup brick_selector = None \<Longrightarrow>
   first_article_link soup = Inl (Exception msg_link_not_found)"
  by (simp add: first_article_link_def and_then_def method_find_def truthy_def)

lemma first_article_link_no_list:
  "soup_find soup brick_selector = Some brick_div \<Longrightarrow>
   soup_find brick_div article_list_selector = None \<Longrightarrow>
   first_article_link soup = Inl (Exception msg_link_not_found)"
  by (simp add: first_article_link_def and_then_def method_find_def truthy_def)

lemma first_article_link_no_item:
  "soup_find soup brick_selector = Some brick_div \<Longrightarrow>
   soup_find brick_div article_list_selector = Some ul \<Longrightarrow>
   soup_find ul (ByName ''li'') = None \<Longrightarrow>
   first_article_link soup = Inl (Exception msg_link_not_found)"
  by (simp add: first_article_link_def and_then_def method_find_def truthy_def)

lemma first_article_link_no_anchor:
  "soup_find soup brick_selector = Some brick_div \<Longrightarrow>
   soup_find brick_div article_list_selector = Some ul \<Longrightarrow>
   soup_find ul (ByName ''li'') = Some first_li \<Longrightarrow>
   soup_find first_li (ByName ''a'') = None \<Longrightarrow>
   first_article_link soup = Inl (Exception msg_link_not_found)"
  by (simp add: first_article_link_def and_then_def method_find_def truthy_def)

lemma first_article_link_no_href:
  "soup_find soup brick_selector = Some brick_div \<Longrightarrow>
   soup_find brick_div article_list_selector = Some ul \<Longrightarrow>
   soup_find ul (ByName ''li'') = Some first_li \<Longrightarrow>
   soup_find first_li (ByName ''a'') = Some link_tag \<Longrightarrow>
   ''href'' \<notin> set (map fst (tag_attrs link_tag)) \<Longrightarrow>
   first_article_link soup = Inl (Exception msg_link_not_found)"
  by (simp add: first_article_link_def and_then_def method_find_def method_has_attr_def truthy_def)

lemma first_article_link_found:
  "soup_find soup brick_selector = Some brick_div \<Longrightarrow>
   soup_find brick_div article_list_selector = Some ul \<Longrightarrow>
   soup_find ul (ByName ''li'') = Some first_li \<Longrightarrow>
   soup_find first_li (ByName ''a'') = Some link_tag \<Longrightarrow>
   map_of (tag_attrs link_tag) ''href'' = Some href \<Longrightarrow>
   first_article_link soup = Inr href"
  by (auto simp: first_article_link_def and_then_def method_find_def method_has_attr_def
        method_getitem_def truthy_def dest: map_of_SomeD intro: rev_image_eqI)

text \<open>Whatever the page, the traversal ends with the link or with the one exception of
  line 31: no lookup on \<open>None\<close> is ever made.\<close>

lemma first_article_link_total:
  "(\<exists>href. first_article_link soup = Inr href)
   \<or> first_article_link soup = Inl (Exception msg_link_not_found)"
proof -
  have present: "\<And>t b. (''href'', b) \<in> set (tag_attrs t) \<Longrightarrow> map_of (tag_attrs t) ''href'' = None \<Longrightarrow> False"
    by (metis map_of_eq_None_iff fst_conv image_eqI)
  show ?thesis
    by (auto simp: first_article_link_def and_then_def method_find_def method_has_attr_def
          method_getitem_def truthy_def split: option.splits dest: present)
qed

text \<open>
  Claim C6. When the front page was fetched with status 200 and a node of the chain
  section, list, first item, anchor, link is absent (no brick section, no article list in
  it, no item in the list, no anchor in the first item, or an anchor without \<open>href\<close>),
  \<open>getFirstArticleUrl\<close> raises the one exception of line 31 with its fixed message; it
  never ends with the \<open>AttributeError\<close>, \<open>TypeError\<close> or \<open>KeyError\<close> of a lookup on a missing
  node.
\<close>

theorem broken_chain_parse_error:
  assumes fetched: "get (front_page_url press_code date) headers = Inr resp"
    and ok: "status_code resp = 200"
    and soup: "soup = html_parser (resp_text resp)"
    and broken:
      "soup_find soup brick_selector = None
       \<or> (\<exists>brick_div. soup_find soup brick_selector = Some brick_div
             \<and> soup_find brick_div article_list_selector = None)
       \<or> (\<exists>brick_div ul. soup_find soup brick_selector = Some brick_div
             \<and> soup_find brick_div article_list_selector = Some ul
             \<and> soup_find ul (ByName ''li'') = None)
       \<or> (\<exists>brick_div ul first_li. soup_find soup brick_selector = Some brick_div
             \<and> soup_find brick_div article_list_selector = Some ul
             \<and> soup_find ul (ByName ''li'') = Some first_li
             \<and> soup_find first_li (ByName ''a'') = None)
       \<or> (\<exists>brick_div ul first_li link_tag. soup_find soup brick_selector = Some brick_div
             \<and> soup_find brick_div article_list_selector = Some ul
             \<and> soup_find ul (ByName ''li'') = Some first_li
             \<and> soup_find first_li (ByName ''a'') = Some link_tag
             \<and> ''href'' \<notin> set (map fst (tag_attrs link_tag)))"
  shows "getFirstArticleUrl get html_parser press_code date headers
           = ([HttpGet (front_page_url press_code date)], Inl (Exception msg_link_not_found))"
proof -
  from broken have "first_article_link soup = Inl (Exception msg_link_not_found)"
    using first_article_link_no_brick first_article_link_no_list first_article_link_no_item
      first_article_link_no_anchor first_article_link_no_href
    by blast
  with fetched ok soup show ?thesis
    by (simp add: getFirstArticleUrl_def Let_def)
qed


theorem broken_chain_parse_error_witness:
  "getFirstArticleUrl (\<lambda>_ _. Inr ok_response) (\<lambda>_. page_empty_list) ''015'' ''20260102'' []
     = ([HttpGet ''https://media.naver.com/press/015/newspaper?date=20260102''],
        Inl (Exception msg_link_not_found))
   \<and> getFirstArticleUrl (\<lambda>_ _. Inr ok_response) (\<lambda>_. page_anchor_without_href) ''015'' ''20260102'' []
     = ([HttpGet ''https://media.naver.com/press/015/newspaper?date=20260102''],
        Inl (Exception msg_link_not_found))"
proof -
  let ?get = "\<lambda>(_::string) (_::(string \<times> string) list). (Inr ok_response :: exn + http_response)"
  have fetched: "?get (front_page_url ''015'' ''20260102'') [] = Inr ok_response" by simp
  have ok: "status_code ok_response = 200" by (simp add: ok_response_def)
  have url: "front_page_url ''015'' ''20260102''
               = ''https://media.naver.com/press/015/newspaper?date=20260102''"
    by (simp add: front_page_url_def)
  have s1: "page_empty_list = (\<lambda>_. page_empty_list) (resp_text ok_response)" by simp
  have b1: "soup_find page_empty_list brick_selector = None
       \<or> (\<exists>brick_div. soup_find page_empty_list brick_selector = Some brick_div
             \<and> soup_find brick_div article_list_selector = None)
       \<or> (\<exists>brick_div ul. soup_find page_empty_list brick_selector = Some brick_div
             \<and> soup_find brick_div article_list_selector = Some ul
             \<and> soup_find ul (ByName ''li'') = None)
       \<or> (\<exists>brick_div ul first_li. soup_find page_empty_list brick_selector = Some brick_div
             \<and> soup_find brick_div article_list_selector = Some ul
             \<and> soup_find ul (ByName ''li'') = Some first_li
             \<and> soup_find first_li (ByName ''a'') = None)
       \<or> (\<exists>brick_div ul first_li link_tag. soup_find page_empty_list brick_selector = Some brick_div
             \<and> soup_find brick_div article_list_selector = Some ul
             \<and> soup_find ul (ByName ''li'') = Some first_li
             \<and> soup_find first_li (ByName ''a'') = Some link_tag
             \<and> ''href'' \<notin> set (map fst (tag_attrs link_tag)))"
    by (simp add: page_empty_list_def soup_find_def brick_selector_def article_list_selector_def)
  have s2: "page_anchor_without_href = (\<lambda>_. page_anchor_without_href) (resp_text ok_response)" by simp
  have b2: "soup_find page_anchor_without_href brick_selector = None
       \<or> (\<exists>brick_div. soup_find page_anchor_without_href brick_selector = Some brick_div
             \<and> soup_find brick_div article_list_selector = None)
       \<or> (\<exists>brick_div ul. soup_find page_anchor_without_href brick_selector = Some brick_div
             \<and> soup_find brick_div article_list_selector = Some ul
             \<and> soup_find ul (ByName ''li'') = None)
       \<or> (\<exists>brick_div ul first_li. soup_find page_anchor_without_href brick_selector = Some brick_div
             \<and> soup_find brick_div article_list_selector = Some ul
             \<and> soup_find ul (ByName ''li'') = Some first_li
             \<and> soup_find first_li (ByName ''a'') = None)
       \<or> (\<exists>brick_div ul first_li link_tag. soup_find page_anchor_without_href brick_selector = Some brick_div
             \<and> soup_find brick_div article_list_selector = Some ul
             \<and> soup_find ul (ByName ''li'') = Some first_li
             \<and> soup_find first_li (ByName ''a'') = Some link_tag
             \<and> ''href'' \<notin> set (map fst (tag_attrs link_tag)))"
    by (simp add: page_anchor_without_href_def soup_find_def brick_selector_def article_list_selector_def)
  from broken_chain_parse_error[where get = ?get and html_parser = "\<lambda>_. page_empty_list"
         and press_code = "''015''" and date = "''20260102''" and headers = "[]",
         OF fetched ok s1 b1]
       broken_chain_parse_error[where get = ?get and html_parser = "\<lambda>_. page_anchor_without_href"
         and press_code = "''015''" and date = "''20260102''" and headers = "[]",
         OF fetched ok s2 b2]
  show ?thesis by (simp only: url)
qed

lemma extract_title_body_total:
  "\<exists>title body. extract_title_body strip soup = Inr (title, body)
     \<and> (soup_find soup title_selector = None \<longrightarrow> title = no_title)
     \<and> (soup_find soup body_selector = None \<longrightarrow> body = no_body)"
  by (auto simp: extract_title_body_def and_then_def method_find_def method_get_text_def truthy_def
           split: option.splits)

text \<open>
  Claim C7. When the article page was fetched with status 200, \<open>getArticleContent\<close>
  returns a title and a body whatever the markup is: the title is the fixed placeholder
  when the title container is absent, and the body is the fixed placeholder when the body
  container is absent.
\<close>

theorem lenient_extraction:
  assumes fetched: "get article_url headers = Inr resp"
    and ok: "status_code resp = 200"
    and soup: "soup = html_parser (resp_text resp)"
  shows "\<exists>title body.
           getArticleContent get html_parser strip article_url headers
             = ([HttpGet article_url], Inr (title, body))
         \<and> (soup_find soup title_selector = None \<longrightarrow> title = no_title)
         \<and> (soup_find soup body_selector = None \<longrightarrow> body = no_body)"
  using assms extract_title_body_total[of strip soup]
  by (auto simp: getArticleContent_def)

theorem lenient_extraction_witness:
  "getArticleContent (\<lambda>_ _. Inr ok_response) (\<lambda>_. page_without_title) (\<lambda>s. s)
       ''https://example.com/a1'' []
     = ([HttpGet ''https://example.com/a1''], Inr (no_title, ''line 1'' @ [CHR 0x0A] @ ''line 2''))"
proof -
  let ?get = "\<lambda>(_::string) (_::(string \<times> string) list). (Inr ok_response :: exn + http_response)"
  have fetched: "?get ''https://example.com/a1'' [] = Inr ok_response" by simp
  have ok: "status_code ok_response = 200" by (simp add: ok_response_def)
  have s: "page_without_title = (\<lambda>_. page_without_title) (resp_text ok_response)" by simp
  have absent: "soup_find page_without_title title_selector = None"
    by (simp add: page_without_title_def soup_find_def title_selector_def)
  from lenient_extraction[where get = ?get and html_parser = "\<lambda>_. page_without_title"
         and strip = "\<lambda>s. s"
         and article_url = "''https://example.com/a1''" and headers = "[]", OF fetched ok s] absent
  obtain title body where
    "getArticleContent ?get (\<lambda>_. page_without_title) (\<lambda>s. s) ''https://example.com/a1'' []
       = ([HttpGet ''https://example.com/a1''], Inr (title, body))" "title = no_title"
    by blast
  then show ?thesis
    by (simp add: getArticleContent_def ok_response_def extract_title_body_def and_then_def
          method_find_def method_get_text_def truthy_def page_without_title_def soup_find_def
          title_selector_def body_selector_def get_text_def)
qed

section \<open>The start of the run\<close>

lemma sublist_extend_left: "sublist xs ys \<Longrightarrow> sublist xs (zs @ ys)"
  unfolding sublist_def by (metis append.assoc)

lemma join_contains: "x \<in> set xs \<Longrightarrow> sublist x (join sep xs)"
proof (induction sep xs rule: join.induct)
  case (1 sep)
  then show ?case by simp
next
  case (2 sep y)
  then show ?case by simp
next
  case (3 sep y z zs)
  show ?case
  proof (cases "x = y")
    case True
    then show ?thesis by simp
  next
    case False
    with 3 have "sublist x (join sep (z # zs))" by simp
    then have "sublist x ((y @ sep) @ join sep (z # zs))" by (rule sublist_extend_left)
    then show ?thesis by simp
  qed
qed

lemma set_missing_vars:
  "set (missing_vars environ) = {v \<in> set required_env_vars. environ v = None \<or> environ v = Some []}"
proof -
  have "getenv_falsy environ v = (environ v = None \<or> environ v = Some [])" for v
    by (cases "environ v") (simp_all add: getenv_falsy_def)
  then show ?thesis by (auto simp: missing_vars_def)
qed

text \<open>
  Claim C9. When one of the seven required environment variables is absent, the run logs
  one error message and raises \<open>ValueError\<close> with the same message, which is the fixed
  prefix followed by the names of all missing variables (those unset or empty, in the
  order of the list) joined by commas, so that every absent variable is named in it; no
  event of the run touches the network.
\<close>

theorem missing_environment_aborts:
  assumes absent: "\<exists>v \<in> set required_env_vars. w_environ w v = None"
  shows "main w = ([Log ERROR (msg_env_missing @ join '', '' (missing_vars (w_environ w)))],
                   Some (ValueError (msg_env_missing @ join '', '' (missing_vars (w_environ w)))))
       \<and> \<not> list_ex is_network (fst (main w))
       \<and> set (missing_vars (w_environ w))
            = {v \<in> set required_env_vars. w_environ w v = None \<or> w_environ w v = Some []}
       \<and> (\<forall>v \<in> set required_env_vars. w_environ w v = None \<longrightarrow>
             str_contains v (msg_env_missing @ join '', '' (missing_vars (w_environ w))))"
proof -
  let ?msg = "msg_env_missing @ join '', '' (missing_vars (w_environ w))"
  from absent have ne: "missing_vars (w_environ w) \<noteq> []"
    using set_missing_vars[of "w_environ w"] by (metis (mono_tags, lifting) empty_iff mem_Collect_eq set_empty)
  then have run: "main w = ([Log ERROR ?msg], Some (ValueError ?msg))"
    by (simp add: main_def Let_def)
  then have quiet: "\<not> list_ex is_network (fst (main w))" by simp
  have named: "\<forall>v \<in> set required_env_vars. w_environ w v = None \<longrightarrow> str_contains v ?msg"
  proof (intro ballI impI)
    fix v assume "v \<in> set required_env_vars" "w_environ w v = None"
    then have "v \<in> set (missing_vars (w_environ w))" by (simp add: set_missing_vars)
    then have "sublist v (join '', '' (missing_vars (w_environ w)))" by (rule join_contains)
    then show "str_contains v ?msg" unfolding str_contains_def by (rule sublist_extend_left)
  qed
  from run quiet named set_missing_vars[of "w_environ w"] show ?thesis by blast
qed


theorem missing_environment_aborts_witness:
  "main (example_world incomplete_environ)
     = ([Log ERROR (msg_env_missing @ ''GEMINI_MODEL, TELEGRAM_BOT_TOKEN'')],
        Some (ValueError (msg_env_missing @ ''GEMINI_MODEL, TELEGRAM_BOT_TOKEN'')))
   \<and> \<not> list_ex is_network (fst (main (example_world incomplete_environ)))"
proof -
  have env: "w_environ (example_world incomplete_environ) = incomplete_environ"
    by (simp add: example_world_def)
  have absent: "\<exists>v \<in> set required_env_vars. w_environ (example_world incomplete_environ) v = None"
    unfolding env by (simp add: required_env_vars_def incomplete_environ_def)
  have missing: "missing_vars incomplete_environ = [''GEMINI_MODEL'', ''TELEGRAM_BOT_TOKEN'']"
    by (simp add: missing_vars_def required_env_vars_def incomplete_environ_def getenv_falsy_def)
  have joined: "join '', '' [''GEMINI_MODEL'', ''TELEGRAM_BOT_TOKEN''] = ''GEMINI_MODEL, TELEGRAM_BOT_TOKEN''"
    by simp
  from missing_environment_aborts[OF absent]
  have "main (example_world incomplete_environ)
          = ([Log ERROR (msg_env_missing @ join '', '' (missing_vars incomplete_environ))],
             Some (ValueError (msg_env_missing @ join '', '' (missing_vars incomplete_environ))))
        \<and> \<not> list_ex is_network (fst (main (example_world incomplete_environ)))"
    unfolding env by blast
  then show ?thesis unfolding missing joined .
qed

text \<open>With every variable set, the first thing the run does is the request for the front
  page: the check of the environment is what keeps an incomplete run off the network.\<close>

lemma complete_environment_goes_on:
  assumes "missing_vars (w_environ w) = []"
  shows "\<exists>evs. fst (main w)
           = HttpGet (front_page_url (str_opt (w_environ w ''PRESS_CODE'')) (w_today_str w)) # evs"
proof -
  let ?first = "getFirstArticleUrl (w_get w) (w_html_parser w) (str_opt (w_environ w ''PRESS_CODE''))
                  (w_today_str w) [(''User-Agent'', w_user_agent w)]"
  have "\<exists>r. ?first = ([HttpGet (front_page_url (str_opt (w_environ w ''PRESS_CODE'')) (w_today_str w))], r)"
    by (auto simp: getFirstArticleUrl_def Let_def split: sum.splits)
  then obtain r where "?first = ([HttpGet (front_page_url (str_opt (w_environ w ''PRESS_CODE'')) (w_today_str w))], r)"
    by blast
  with assms show ?thesis
    by (cases r) (auto simp: main_def try_block_def Let_def seq_def split: prod.splits sum.splits)
qed

text \<open>A \<open>None\<close> from the summarization ends the run: the failure is logged twice (line 289
  and the outer handler) and neither the renderer nor the post API is reached.\<close>

lemma summarization_failure_aborts:
  assumes env: "missing_vars (w_environ w) = []"
    and located: "getFirstArticleUrl (w_get w) (w_html_parser w) (str_opt (w_environ w ''PRESS_CODE''))
                    (w_today_str w) [(''User-Agent'', w_user_agent w)] = (e1, Inr article_url)"
    and extracted: "getArticleContent (w_get w) (w_html_parser w) (w_strip w) article_url
                    [(''User-Agent'', w_user_agent w)] = (e2, Inr (title, body))"
    and failed: "getGeminiResponse_default (w_generate_content w) (w_environ w) (w_libs w)
                    title body = (e3, Inr None)"
  shows "main w = (e1 @ [Log INFO (msg_article_link @ article_url)] @ e2
                     @ [Log INFO (msg_article_title @ title), Log INFO (msg_article_body @ body)]
                     @ e3 @ [Log ERROR msg_gemini_failed_log,
                             Log ERROR (msg_error @ msg_gemini_failed)], None)"
  using assms by (simp add: main_def try_block_def Let_def seq_def log_def)


end
